theory Spec2Isabelle
  imports Main
begin

section \<open>The durable store\<close>

text \<open>
  The tables of the schema that the ingestion code reads and writes. Only the columns
  the handlers touch are kept. A timestamp column holds an instant; it is modelled as
  the number of milliseconds since the epoch, which is what the ISO string produced by
  \<^verbatim>\<open>new Date(x).toISOString()\<close> denotes once stored in a
  \<^verbatim>\<open>TIMESTAMP WITH TIME ZONE\<close> column.
\<close>

datatype conversation_status = OPEN | PENDING | RESOLVED

record conversation =
  conv_id :: string
  pageId :: string
  customerId :: string
  customerName :: string
  customerAvatar :: string
  lastMessage :: string
  lastTimestamp :: int
  status :: conversation_status
  assignedAgentId :: "string option"
  unreadCount :: int

record message_row =
  msg_id :: string
  conversationId :: string
  senderId :: string
  senderName :: string
  msg_text :: string
  timestamp :: int
  isIncoming :: bool
  isRead :: bool

record store =
  pages :: "string list"
  conversations :: "conversation list"
  messages :: "message_row list"

datatype db_error = UniqueViolation | ForeignKeyViolation | InvalidDatetime

text \<open>
  The timestamps a \<^verbatim>\<open>TIMESTAMP WITH TIME ZONE\<close> column accepts from the ISO string
  of \<^verbatim>\<open>toISOString()\<close>: the years 0001 to 9999, that is from
  \<^verbatim>\<open>0001-01-01T00:00:00.000Z\<close> to \<^verbatim>\<open>9999-12-31T23:59:59.999Z\<close>. Outside the
  years 0000 to 9999 the string takes the expanded form (\<^verbatim>\<open>+010000-01-01T...\<close>),
  which the column's input function rejects, as it does the year 0000; a request that
  carries such a string writes nothing.
\<close>

definition timestamptz_accepts :: "int \<Rightarrow> bool" where
  "timestamptz_accepts t = (- 62135596800000 \<le> t \<and> t \<le> 253402300799999)"

text \<open>
  \<^verbatim>\<open>.select('id').eq('customerId', s).eq('pageId', p).single()\<close>:
  the row when exactly one row matches, otherwise no data.
\<close>

definition select_conversation_single :: "store \<Rightarrow> string \<Rightarrow> string \<Rightarrow> conversation option" where
  "select_conversation_single st sid pid =
     (case filter (\<lambda>c. customerId c = sid \<and> pageId c = pid) (conversations st) of
        [c] \<Rightarrow> Some c
      | _ \<Rightarrow> None)"

text \<open>
  \<^verbatim>\<open>.from('conversations').upsert(row)\<close>: insert, or on a conflict on the
  primary key overwrite the row. The timestamp must be one the column accepts and the
  reference to \<^verbatim>\<open>pages(id)\<close> is checked; a rejected write leaves the table as it
  was. The handler never reads the outcome.
\<close>

definition upsert_conversation :: "conversation \<Rightarrow> store \<Rightarrow> store" where
  "upsert_conversation row st =
     (if \<not> timestamptz_accepts (lastTimestamp row) then st
      else if pageId row \<notin> set (pages st) then st
      else if conv_id row \<in> set (map conv_id (conversations st))
      then st\<lparr>conversations :=
                map (\<lambda>c. if conv_id c = conv_id row then row else c) (conversations st)\<rparr>
      else st\<lparr>conversations := conversations st @ [row]\<rparr>)"

text \<open>
  A value handed to the store for an integer column: a number, or the request builder
  that \<^verbatim>\<open>supabaseAdmin.rpc(name, args)\<close> returns when it is not awaited. The builder
  is an object of the client library; nothing is called in the store.
\<close>

datatype column_value = Integer_value int | Request_builder string

text \<open>
  \<^verbatim>\<open>.from('conversations').update({lastMessage, lastTimestamp, unreadCount}).eq('id', cid)\<close>.
  The update is one statement: when \<^verbatim>\<open>unreadCount\<close> is not a number for the
  \<^verbatim>\<open>INTEGER\<close> column, or the timestamp is not accepted, the store rejects the whole
  update and every row stays as it was.
\<close>

definition update_conversation_inbound ::
  "string \<Rightarrow> string \<Rightarrow> int \<Rightarrow> column_value \<Rightarrow> store \<Rightarrow> store" where
  "update_conversation_inbound cid txt ts unread st =
     (case unread of
        Request_builder f \<Rightarrow> st
      | Integer_value n \<Rightarrow>
          if \<not> timestamptz_accepts ts then st
          else st\<lparr>conversations :=
                   map (\<lambda>c. if conv_id c = cid
                             then c\<lparr>lastMessage := txt, lastTimestamp := ts, unreadCount := n\<rparr>
                             else c) (conversations st)\<rparr>)"

text \<open>
  \<^verbatim>\<open>.from('conversations').update({lastMessage, lastTimestamp}).eq('id', cid)\<close>
  as issued after an outbound message.
\<close>

definition update_conversation_outbound :: "string \<Rightarrow> string \<Rightarrow> int \<Rightarrow> store \<Rightarrow> store" where
  "update_conversation_outbound cid txt ts st =
     st\<lparr>conversations :=
          map (\<lambda>c. if conv_id c = cid
                    then c\<lparr>lastMessage := txt, lastTimestamp := ts\<rparr>
                    else c) (conversations st)\<rparr>"

text \<open>
  \<^verbatim>\<open>.from('messages').insert(row)\<close> for a row whose timestamp the column accepts:
  rejected when the primary key is taken or the referenced conversation does not exist;
  the error is returned, not thrown.
\<close>

definition insert_message :: "message_row \<Rightarrow> store \<Rightarrow> db_error option \<times> store" where
  "insert_message row st =
     (if msg_id row \<in> set (map msg_id (messages st)) then (Some UniqueViolation, st)
      else if conversationId row \<notin> set (map conv_id (conversations st))
      then (Some ForeignKeyViolation, st)
      else (None, st\<lparr>messages := messages st @ [row]\<rparr>))"

text \<open>
  The same insert for a row whose timestamp is the ISO string computed from a payload:
  the column's input function runs first.
\<close>

definition insert_message_iso :: "message_row \<Rightarrow> store \<Rightarrow> db_error option \<times> store" where
  "insert_message_iso row st =
     (if \<not> timestamptz_accepts (timestamp row) then (Some InvalidDatetime, st)
      else insert_message row st)"

text \<open>\<^verbatim>\<open>.update({ isRead: true }).in('id', messageIds)\<close>\<close>

definition update_messages_read_in :: "string list \<Rightarrow> store \<Rightarrow> store" where
  "update_messages_read_in ids st =
     st\<lparr>messages :=
          map (\<lambda>m. if msg_id m \<in> set ids then m\<lparr>isRead := True\<rparr> else m) (messages st)\<rparr>"

text \<open>
  \<^verbatim>\<open>.update({ isRead: true }).lte('timestamp', w)\<close>: when the store cannot read the
  bound as a timestamp the request is rejected and nothing is updated.
\<close>

definition update_messages_read_lte :: "int \<Rightarrow> store \<Rightarrow> store" where
  "update_messages_read_lte w st =
     (if \<not> timestamptz_accepts w then st
      else st\<lparr>messages :=
             map (\<lambda>m. if timestamp m \<le> w then m\<lparr>isRead := True\<rparr> else m) (messages st)\<rparr>)"

section \<open>Webhook payloads\<close>

text \<open>
  The JSON body of a webhook delivery. A field that may be absent is an option
  (\<open>None\<close> is JavaScript's \<^verbatim>\<open>undefined\<close>); the fields that are present carry the
  types the platform sends: identifiers and text are strings, timestamps and the
  watermark are numbers. \<open>sender\<close> and \<open>recipient\<close> hold the \<^verbatim>\<open>id\<close> of the
  respective object.
\<close>

record fb_message =
  mid :: string
  text_of :: "string option"

record fb_delivery =
  mids :: "string list option"

record fb_read =
  watermark :: "int option"

record messaging_event =
  sender :: "string option"
  recipient :: "string option"
  ev_timestamp :: "int option"
  message :: "fb_message option"
  delivery :: "fb_delivery option"
  read :: "fb_read option"

record webhook_entry =
  messaging :: "messaging_event list option"

record webhook_body =
  object :: "string option"
  entry :: "webhook_entry list option"

datatype js_error = TypeError | RangeError

datatype log_entry = LogInfo string | LogWarn string | LogError string

text \<open>
  \<^verbatim>\<open>new Date(x).toISOString()\<close> for a number \<open>x\<close>: a \<^verbatim>\<open>RangeError\<close> when
  the date is invalid, that is when \<open>x\<close> is absent or outside the range of 8.64e15
  milliseconds around the epoch. Otherwise the result is the ISO string of the instant,
  here the instant itself; whether the store takes that string as a timestamp is
  \<open>timestamptz_accepts\<close>, asked by each write that carries it.
\<close>

definition toISOString :: "int option \<Rightarrow> js_error + int" where
  "toISOString x =
     (case x of
        None \<Rightarrow> Inl RangeError
      | Some t \<Rightarrow> if - 8640000000000000 \<le> t \<and> t \<le> 8640000000000000 then Inr t
                  else Inl RangeError)"

section \<open>The webhook route\<close>

definition conversationId_of :: "string \<Rightarrow> string \<Rightarrow> string" where
  "conversationId_of pid sid = pid @ ''_'' @ sid"

definition user_name :: "string \<Rightarrow> string" where
  "user_name sid = ''User '' @ take 8 sid"

definition new_conversation :: "string \<Rightarrow> string \<Rightarrow> string \<Rightarrow> int \<Rightarrow> conversation" where
  "new_conversation pid sid txt ts =
     \<lparr>conv_id = conversationId_of pid sid, pageId = pid, customerId = sid,
      customerName = user_name sid, customerAvatar = [], lastMessage = txt,
      lastTimestamp = ts, status = OPEN, assignedAgentId = None, unreadCount = 1\<rparr>"

text \<open>
  The first write of \<^verbatim>\<open>handleMessage\<close>: create the conversation, or update the one
  found. In the update the value of \<^verbatim>\<open>unreadCount\<close> is
  \<^verbatim>\<open>supabaseAdmin.rpc('increment', { x: 1 })\<close>, the request builder itself.
\<close>

definition write_conversation ::
  "conversation option \<Rightarrow> string \<Rightarrow> string \<Rightarrow> string \<Rightarrow> int \<Rightarrow> store \<Rightarrow> store \<times> log_entry list" where
  "write_conversation existingConv pid sid txt ts st =
     (case existingConv of
        None \<Rightarrow> (upsert_conversation (new_conversation pid sid txt ts) st,
                 [LogInfo ''New conversation created''])
      | Some c \<Rightarrow>
          (update_conversation_inbound (conv_id c) txt ts (Request_builder ''increment'') st,
           []))"

text \<open>\<^verbatim>\<open>existingConv?.id || `${pageId}_${senderId}`\<close>: an empty identifier is falsy.\<close>

definition message_conversationId :: "conversation option \<Rightarrow> string \<Rightarrow> string \<Rightarrow> string" where
  "message_conversationId existingConv pid sid =
     (case existingConv of
        None \<Rightarrow> conversationId_of pid sid
      | Some c \<Rightarrow> if conv_id c = [] then conversationId_of pid sid else conv_id c)"

definition inbound_row :: "string \<Rightarrow> string \<Rightarrow> string \<Rightarrow> string \<Rightarrow> int \<Rightarrow> message_row" where
  "inbound_row messageId cid sid txt ts =
     \<lparr>msg_id = messageId, conversationId = cid, senderId = sid, senderName = user_name sid,
      msg_text = txt, timestamp = ts, isIncoming = True, isRead = False\<rparr>"

text \<open>The second write of \<^verbatim>\<open>handleMessage\<close>: store the message and log the outcome.\<close>

definition store_message ::
  "conversation option \<Rightarrow> string \<Rightarrow> string \<Rightarrow> string \<Rightarrow> string \<Rightarrow> int \<Rightarrow> store \<Rightarrow> store \<times> log_entry list" where
  "store_message existingConv messageId pid sid txt ts st =
     (case insert_message_iso
             (inbound_row messageId (message_conversationId existingConv pid sid) sid txt ts) st of
        (Some e, st') \<Rightarrow> (st', [LogError ''Error storing message''])
      | (None, st') \<Rightarrow> (st', [LogInfo ''Message stored and pushed to clients (real-time)'']))"

text \<open>
  The two writes of \<^verbatim>\<open>handleMessage\<close>, given what the lookup of the conversation
  returned. The lookup and the writes are separate requests to the store.
\<close>

definition handleMessage_writes ::
  "conversation option \<Rightarrow> string \<Rightarrow> string \<Rightarrow> string \<Rightarrow> string \<Rightarrow> int \<Rightarrow> store
     \<Rightarrow> js_error option \<times> store \<times> log_entry list" where
  "handleMessage_writes existingConv messageId pid sid txt ts st =
     (let (st1, log1) = write_conversation existingConv pid sid txt ts st;
          (st2, log2) = store_message existingConv messageId pid sid txt ts st1
      in (None, st2, log1 @ log2))"

text \<open>
  \<^verbatim>\<open>handleMessage(event, pageId, senderId)\<close>. The result is the exception that escapes
  (if any), the store and the lines logged. Everything after the text check runs inside
  the function's own \<^verbatim>\<open>try\<close>.
\<close>

definition handleMessage ::
  "messaging_event \<Rightarrow> string \<Rightarrow> string \<Rightarrow> store \<Rightarrow> js_error option \<times> store \<times> log_entry list" where
  "handleMessage event pid sid st =
     (case message event of
        None \<Rightarrow> (Some TypeError, st, [])
      | Some m \<Rightarrow>
         (case text_of m of
            None \<Rightarrow> (None, st, [LogWarn ''Received non-text message, skipping''])
          | Some txt \<Rightarrow>
             if txt = [] then (None, st, [LogWarn ''Received non-text message, skipping''])
             else
               (case toISOString (ev_timestamp event) of
                  Inl e \<Rightarrow> (None, st, [LogError ''Error handling message''])
                | Inr ts \<Rightarrow>
                   handleMessage_writes (select_conversation_single st sid pid)
                     (mid m) pid sid txt ts st)))"

text \<open>\<^verbatim>\<open>handleDelivery(event)\<close>\<close>

definition handleDelivery ::
  "messaging_event \<Rightarrow> store \<Rightarrow> js_error option \<times> store \<times> log_entry list" where
  "handleDelivery event st =
     (case delivery event of
        None \<Rightarrow> (Some TypeError, st, [])
      | Some d \<Rightarrow>
         (case mids d of
            None \<Rightarrow> (None, st, [])
          | Some messageIds \<Rightarrow>
             if length messageIds > 0
             then (None, update_messages_read_in messageIds st,
                   [LogInfo ''Messages marked as delivered''])
             else (None, st, [])))"

text \<open>\<^verbatim>\<open>handleRead(event)\<close>\<close>

definition handleRead ::
  "messaging_event \<Rightarrow> store \<Rightarrow> js_error option \<times> store \<times> log_entry list" where
  "handleRead event st =
     (case read event of
        None \<Rightarrow> (Some TypeError, st, [])
      | Some r \<Rightarrow>
         (case toISOString (watermark r) of
            Inl e \<Rightarrow> (None, st, [LogError ''Error updating read status''])
          | Inr w \<Rightarrow> (None, update_messages_read_lte w st,
                     [LogInfo ''Messages marked as read up to''])))"

text \<open>
  The body of the \<^verbatim>\<open>for\<close> loop of the POST handler for one entry:
  \<^verbatim>\<open>entry.messaging[0]\<close>, the reads of \<^verbatim>\<open>sender.id\<close> and
  \<^verbatim>\<open>recipient.id\<close>, and the dispatch on the kind of event.
\<close>

definition process_entry ::
  "webhook_entry \<Rightarrow> store \<Rightarrow> js_error option \<times> store \<times> log_entry list" where
  "process_entry e st =
     (case messaging e of
        None \<Rightarrow> (Some TypeError, st, [])
      | Some [] \<Rightarrow> (None, st, [])
      | Some (webhookEvent # _) \<Rightarrow>
         (case sender webhookEvent of
            None \<Rightarrow> (Some TypeError, st, [])
          | Some sid \<Rightarrow>
             (case recipient webhookEvent of
                None \<Rightarrow> (Some TypeError, st, [])
              | Some pid \<Rightarrow>
                 if message webhookEvent \<noteq> None then handleMessage webhookEvent pid sid st
                 else if delivery webhookEvent \<noteq> None then handleDelivery webhookEvent st
                 else if read webhookEvent \<noteq> None then handleRead webhookEvent st
                 else (None, st, []))))"

text \<open>The loop: an exception leaves it at once, keeping the writes made so far.\<close>

fun process_entries ::
  "webhook_entry list \<Rightarrow> store \<Rightarrow> js_error option \<times> store \<times> log_entry list" where
  "process_entries [] st = (None, st, [])"
| "process_entries (e # es) st =
     (case process_entry e st of
        (Some err, st', lg) \<Rightarrow> (Some err, st', lg)
      | (None, st', lg) \<Rightarrow>
         (case process_entries es st' of (r, st'', lg') \<Rightarrow> (r, st'', lg @ lg')))"

record http_response =
  http_status :: nat
  http_body :: string

text \<open>
  \<^verbatim>\<open>router.post('/')\<close>: the acknowledgement is sent first; the entries are processed
  only for \<^verbatim>\<open>body.object === 'page'\<close>, inside one \<^verbatim>\<open>try\<close> around the
  whole loop. A body without an \<^verbatim>\<open>entry\<close> list makes the loop header throw.
\<close>

definition webhook_post :: "webhook_body \<Rightarrow> store \<Rightarrow> http_response \<times> store \<times> log_entry list" where
  "webhook_post body st =
     (let res = \<lparr>http_status = 200, http_body = ''EVENT_RECEIVED''\<rparr> in
      if object body = Some ''page'' then
        (case entry body of
           None \<Rightarrow> (res, st, [LogError ''Error processing webhook event''])
         | Some es \<Rightarrow>
            (case process_entries es st of
               (Some err, st', lg) \<Rightarrow> (res, st', lg @ [LogError ''Error processing webhook event''])
             | (None, st', lg) \<Rightarrow> (res, st', lg)))
      else (res, st, []))"

section \<open>Reading results\<close>

definition raised :: "'e option \<times> store \<times> log_entry list \<Rightarrow> 'e option" where
  "raised r = fst r"

definition store_of :: "'a \<times> store \<times> log_entry list \<Rightarrow> store" where
  "store_of r = fst (snd r)"

definition log_of :: "'a \<times> store \<times> log_entry list \<Rightarrow> log_entry list" where
  "log_of r = snd (snd r)"

fun is_error :: "log_entry \<Rightarrow> bool" where
  "is_error (LogError s) = True"
| "is_error (LogWarn s) = False"
| "is_error (LogInfo s) = False"

text \<open>The entry with at most its first messaging sub-event.\<close>

definition first_only :: "webhook_entry \<Rightarrow> webhook_entry" where
  "first_only e = e\<lparr>messaging := map_option (take 1) (messaging e)\<rparr>"

text \<open>
  The entries whose fields the loop body cannot read: no \<^verbatim>\<open>messaging\<close> array, or a
  first sub-event without \<^verbatim>\<open>sender\<close> or \<^verbatim>\<open>recipient\<close>.
\<close>

definition entry_unreadable :: "webhook_entry \<Rightarrow> bool" where
  "entry_unreadable e =
     (case messaging e of
        None \<Rightarrow> True
      | Some [] \<Rightarrow> False
      | Some (ev # _) \<Rightarrow> sender ev = None \<or> recipient ev = None)"

text \<open>The rows of a table with a given identifier, and the conversations of a customer on a page.\<close>

definition conversations_with_id :: "store \<Rightarrow> string \<Rightarrow> conversation list" where
  "conversations_with_id st cid = filter (\<lambda>c. conv_id c = cid) (conversations st)"

definition messages_with_id :: "store \<Rightarrow> string \<Rightarrow> message_row list" where
  "messages_with_id st k = filter (\<lambda>r. msg_id r = k) (messages st)"

definition conversations_of :: "store \<Rightarrow> string \<Rightarrow> string \<Rightarrow> conversation list" where
  "conversations_of st sid pid = filter (\<lambda>c. customerId c = sid \<and> pageId c = pid) (conversations st)"

text \<open>The primary keys of the schema: identifiers are unique within each table.\<close>

definition primary_keys :: "store \<Rightarrow> bool" where
  "primary_keys st \<longleftrightarrow>
     distinct (map conv_id (conversations st)) \<and> distinct (map msg_id (messages st))"

section \<open>Concrete scenarios\<close>

text \<open>
  A store with one registered page and nothing else, and the first message "Hi" with
  identifier \<open>m1\<close> of customer \<open>c1\<close> to page \<open>p1\<close>.
\<close>

definition scenario_store :: store where
  "scenario_store = \<lparr>pages = [''p1''], conversations = [], messages = []\<rparr>"

definition scenario_message :: messaging_event where
  "scenario_message =
     \<lparr>sender = Some ''c1'', recipient = Some ''p1'', ev_timestamp = Some 1700000000000,
      message = Some \<lparr>mid = ''m1'', text_of = Some ''Hi''\<rparr>, delivery = None, read = None\<rparr>"

definition scenario_body :: webhook_body where
  "scenario_body =
     \<lparr>object = Some ''page'', entry = Some [\<lparr>messaging = Some [scenario_message]\<rparr>]\<rparr>"

text \<open>A second message of the same customer to the same page.\<close>

definition scenario_message2 :: messaging_event where
  "scenario_message2 =
     \<lparr>sender = Some ''c1'', recipient = Some ''p1'', ev_timestamp = Some 1700000000500,
      message = Some \<lparr>mid = ''m2'', text_of = Some ''Anyone there?''\<rparr>,
      delivery = None, read = None\<rparr>"

definition scenario_body2 :: webhook_body where
  "scenario_body2 =
     \<lparr>object = Some ''page'', entry = Some [\<lparr>messaging = Some [scenario_message2]\<rparr>]\<rparr>"

definition scenario_row2 :: message_row where
  "scenario_row2 =
     \<lparr>msg_id = ''m2'', conversationId = ''p1_c1'', senderId = ''c1'', senderName = ''User c1'',
      msg_text = ''Anyone there?'', timestamp = 1700000000500, isIncoming = True,
      isRead = False\<rparr>"

text \<open>The first message again, stamped with the first millisecond of the year 10000.\<close>

definition far_future_body :: webhook_body where
  "far_future_body =
     \<lparr>object = Some ''page'',
      entry = Some [\<lparr>messaging = Some [scenario_message\<lparr>ev_timestamp := Some 253402300800000\<rparr>]\<rparr>]\<rparr>"

text \<open>The store after scenario A, written out.\<close>

definition scenario_conversation :: conversation where
  "scenario_conversation =
     \<lparr>conv_id = ''p1_c1'', pageId = ''p1'', customerId = ''c1'', customerName = ''User c1'',
      customerAvatar = [], lastMessage = ''Hi'', lastTimestamp = 1700000000000,
      status = OPEN, assignedAgentId = None, unreadCount = 1\<rparr>"

definition scenario_row :: message_row where
  "scenario_row =
     \<lparr>msg_id = ''m1'', conversationId = ''p1_c1'', senderId = ''c1'', senderName = ''User c1'',
      msg_text = ''Hi'', timestamp = 1700000000000, isIncoming = True, isRead = False\<rparr>"

definition scenario_store_A :: store where
  "scenario_store_A =
     \<lparr>pages = [''p1''], conversations = [scenario_conversation], messages = [scenario_row]\<rparr>"

text \<open>A delivery receipt naming a stored and an unknown message.\<close>

definition scenario_delivery :: messaging_event where
  "scenario_delivery =
     \<lparr>sender = Some ''c1'', recipient = Some ''p1'', ev_timestamp = Some 1700000001000,
      message = None, delivery = Some \<lparr>mids = Some [''m1'', ''zzz'']\<rparr>, read = None\<rparr>"

text \<open>
  Two customers of page \<open>p1\<close>, each with one unread message, and the read receipt of
  customer \<open>c1\<close> with watermark 200.
\<close>

definition two_customer_store :: store where
  "two_customer_store =
     \<lparr>pages = [''p1''],
      conversations =
        [scenario_conversation,
         scenario_conversation\<lparr>conv_id := ''p1_c2'', customerId := ''c2'',
                                 customerName := ''User c2''\<rparr>],
      messages =
        [\<lparr>msg_id = ''a1'', conversationId = ''p1_c1'', senderId = ''agent'', senderName = ''Agent'',
          msg_text = ''Hello c1'', timestamp = 200, isIncoming = False, isRead = False\<rparr>,
         \<lparr>msg_id = ''b1'', conversationId = ''p1_c2'', senderId = ''agent'', senderName = ''Agent'',
          msg_text = ''Hello c2'', timestamp = 150, isIncoming = False, isRead = False\<rparr>,
         \<lparr>msg_id = ''a2'', conversationId = ''p1_c1'', senderId = ''agent'', senderName = ''Agent'',
          msg_text = ''Still there?'', timestamp = 201, isIncoming = False, isRead = False\<rparr>]\<rparr>"

definition scenario_read :: messaging_event where
  "scenario_read =
     \<lparr>sender = Some ''c1'', recipient = Some ''p1'', ev_timestamp = Some 1700000002000,
      message = None, delivery = None, read = Some \<lparr>watermark = Some 200\<rparr>\<rparr>"

text \<open>An entry without a \<^verbatim>\<open>messaging\<close> array.\<close>

definition malformed_entry :: webhook_entry where
  "malformed_entry = \<lparr>messaging = None\<rparr>"

section \<open>The send-message route\<close>

text \<open>Decimal rendering of a number inside a template literal.\<close>

definition digit_char :: "nat \<Rightarrow> char" where
  "digit_char d = ''0123456789'' ! d"

fun digits :: "nat \<Rightarrow> string" where
  "digits n = (if n < 10 then [digit_char n] else digits (n div 10) @ [digit_char (n mod 10)])"

declare digits.simps [simp del]

text \<open>\<^verbatim>\<open>x || d\<close> on an optional string: absent and empty are falsy.\<close>

definition or_else :: "string option \<Rightarrow> string \<Rightarrow> string" where
  "or_else x d = (case x of None \<Rightarrow> d | Some v \<Rightarrow> if v = [] then d else v)"

record send_request =
  req_conversationId :: "string option"
  req_text :: "string option"
  req_senderId :: "string option"
  req_senderName :: "string option"

datatype api_body = Json_message message_row | Json_error string | Json_db_error db_error

text \<open>
  \<^verbatim>\<open>`msg_${Date.now()}_${Math.random().toString(36).substr(2, 9)}`\<close>: the clock and
  the random fragment are inputs of the model.
\<close>

definition generated_id :: "nat \<Rightarrow> string \<Rightarrow> string" where
  "generated_id now rnd = ''msg_'' @ digits now @ ''_'' @ rnd"

definition outbound_row :: "string \<Rightarrow> send_request \<Rightarrow> string \<Rightarrow> string \<Rightarrow> int \<Rightarrow> message_row" where
  "outbound_row messageId req cid txt ts =
     \<lparr>msg_id = messageId, conversationId = cid,
      senderId = or_else (req_senderId req) ''agent'',
      senderName = or_else (req_senderName req) ''Agent'',
      msg_text = txt, timestamp = ts, isIncoming = False, isRead = True\<rparr>"

text \<open>
  \<^verbatim>\<open>router.post('/send-message')\<close>. \<open>now\<close> is the clock read for the identifier,
  \<open>rnd\<close> the random fragment and \<open>ts\<close> the clock read for the timestamp, the
  server's current time, which the column accepts. A rejected
  insert is thrown and answered with status 500 and the store's error, before the
  conversation is touched.
\<close>

definition send_message ::
  "send_request \<Rightarrow> nat \<Rightarrow> string \<Rightarrow> int \<Rightarrow> store \<Rightarrow> (nat \<times> api_body) \<times> store \<times> log_entry list" where
  "send_message req now rnd ts st =
     (case (req_conversationId req, req_text req) of
        (Some cid, Some txt) \<Rightarrow>
          if cid = [] \<or> txt = []
          then ((400, Json_error ''conversationId and text are required''), st, [])
          else
            (case insert_message (outbound_row (generated_id now rnd) req cid txt ts) st of
               (Some e, st') \<Rightarrow>
                 ((500, Json_db_error e), st', [LogError ''Error sending message''])
             | (None, st') \<Rightarrow>
                 ((200, Json_message (outbound_row (generated_id now rnd) req cid txt ts)),
                  update_conversation_outbound cid txt ts st',
                  [LogInfo ''Message sent and pushed to clients'']))
      | _ \<Rightarrow> ((400, Json_error ''conversationId and text are required''), st, []))"

section \<open>The chat window\<close>

text \<open>
  Strings of the client are modelled as ASCII; white space is what \<^verbatim>\<open>\s\<close> and
  \<^verbatim>\<open>trim\<close> treat as such among the ASCII characters.
\<close>

definition is_space :: "char \<Rightarrow> bool" where
  "is_space c = (c \<in> set [CHR 0x20, CHR 0x09, CHR 0x0A, CHR 0x0B, CHR 0x0C, CHR 0x0D])"

definition trim :: "string \<Rightarrow> string" where
  "trim s = rev (dropWhile is_space (rev (dropWhile is_space s)))"

text \<open>
  \<^verbatim>\<open>text.match(/(https?:\/\/[^\s]+)/g) || []\<close>: within each run of characters free of
  white space, the leftmost place where the scheme is followed by at least one more
  character starts a match, which extends to the end of the run.
\<close>

fun split_spaces :: "string \<Rightarrow> string \<Rightarrow> string list" where
  "split_spaces [] acc = [rev acc]"
| "split_spaces (c # cs) acc =
     (if is_space c then rev acc # split_spaces cs [] else split_spaces cs (c # acc))"

definition url_here :: "string \<Rightarrow> bool" where
  "url_here s = ((take 7 s = ''http://'' \<and> length s > 7) \<or> (take 8 s = ''https://'' \<and> length s > 8))"

fun first_url :: "string \<Rightarrow> string option" where
  "first_url [] = None"
| "first_url (c # cs) = (if url_here (c # cs) then Some (c # cs) else first_url cs)"

definition match_urls :: "string \<Rightarrow> string list" where
  "match_urls s = List.map_filter first_url (split_spaces s [])"

text \<open>\<^verbatim>\<open>validateMessageContent\<close>: false when the text holds a URL that is not an approved link.\<close>

definition validateMessageContent :: "string list \<Rightarrow> string \<Rightarrow> bool" where
  "validateMessageContent approvedUrls txt =
     (\<not> list_ex (\<lambda>url. url \<notin> set approvedUrls) (match_urls txt))"

text \<open>\<^verbatim>\<open>s.includes(sub)\<close>\<close>

fun str_includes :: "string \<Rightarrow> string \<Rightarrow> bool" where
  "str_includes [] sub = (sub = [])"
| "str_includes (c # cs) sub = (take (length sub) (c # cs) = sub \<or> str_includes cs sub)"

text \<open>
  \<^verbatim>\<open>isWindowExpired\<close>: \<open>lastTime\<close> is \<^verbatim>\<open>new Date(conversation.lastTimestamp).getTime()\<close>
  (\<open>None\<close> for \<^verbatim>\<open>NaN\<close>, which compares false) and \<open>now\<close> the current time, both in
  milliseconds.
\<close>

definition isWindowExpired :: "int option \<Rightarrow> int \<Rightarrow> bool" where
  "isWindowExpired lastTime now =
     (case lastTime of None \<Rightarrow> False | Some t \<Rightarrow> now - t > 24 * 60 * 60 * 1000)"

record client_page =
  page_id :: string
  accessToken :: "string option"

record agent =
  agent_id :: string
  agent_name :: string

record client_conversation =
  cc_id :: string
  cc_pageId :: string
  cc_customerId :: string
  cc_lastTime :: "int option"

record ui_error =
  err_message :: string
  isPolicy :: bool

text \<open>The state the component reads and sets; \<open>view\<close> is the message list of the application store.\<close>

record chat_state =
  view :: "message_row list"
  sentMessageIds :: "string list"
  inputText :: string
  isSending :: bool
  lastError :: "ui_error option"
  showLibrary :: bool
  showRestrictedPopup :: bool

text \<open>The outcome of \<^verbatim>\<open>sendPageMessage\<close>: the response with its optional \<^verbatim>\<open>message_id\<close>, or the error thrown.\<close>

datatype send_outcome = Sent "string option" | Failed "int option" "string option"

record send_env =
  forcedText :: "string option"
  currentUser :: "agent option"
  known_pages :: "client_page list"
  approvedLinks :: "string list"
  clock :: nat
  random36 :: string
  clock_ts :: int
  outcome :: send_outcome

record send_page_request =
  to_customer :: string
  body_text :: string
  access_token :: string
  tag :: "string option"

text \<open>
  Modelled from the spec: \<^verbatim>\<open>addMessage\<close> of the application store
  (\<^verbatim>\<open>store/AppContext\<close>) is not among the sources. The spec has the entry "inserted
  into the local view", and a write with an identity already present is a no-op.
\<close>

definition addMessage :: "message_row \<Rightarrow> message_row list \<Rightarrow> message_row list" where
  "addMessage m v = (if msg_id m \<in> set (map msg_id v) then v else v @ [m])"

definition policy_warning :: ui_error where
  "policy_warning =
     \<lparr>err_message = ''This conversation is older than 24 hours. You can only send messages with the HUMAN_AGENT tag. Facebook may restrict this.'',
      isPolicy = True\<rparr>"

definition window_error :: ui_error where
  "window_error =
     \<lparr>err_message = ''Cannot send message: 24-hour messaging window has expired. You need to wait for the customer to message you first, or use a message tag.'',
      isPolicy = True\<rparr>"

definition temp_id :: "nat \<Rightarrow> string \<Rightarrow> string" where
  "temp_id now rnd = ''temp-'' @ digits now @ ''-'' @ rnd"

definition optimisticMessage :: "send_env \<Rightarrow> client_conversation \<Rightarrow> string \<Rightarrow> message_row" where
  "optimisticMessage env conv textToSubmit =
     \<lparr>msg_id = temp_id (clock env) (random36 env), conversationId = cc_id conv,
      senderId = or_else (map_option agent_id (currentUser env)) ''agent'',
      senderName = or_else (map_option agent_name (currentUser env)) ''Agent'',
      msg_text = textToSubmit, timestamp = clock_ts env, isIncoming = False, isRead = True\<rparr>"

text \<open>The \<^verbatim>\<open>try\<close> block of \<^verbatim>\<open>handleSend\<close> after a response.\<close>

definition on_response ::
  "(message_row \<Rightarrow> message_row list \<Rightarrow> message_row list) \<Rightarrow> send_env \<Rightarrow> message_row
     \<Rightarrow> string option \<Rightarrow> chat_state \<Rightarrow> chat_state" where
  "on_response add env optimistic message_id st =
     (let st1 = (case message_id of
                   None \<Rightarrow> st
                 | Some k \<Rightarrow> if k = [] then st
                             else st\<lparr>view := add (optimistic\<lparr>msg_id := k\<rparr>) (view st)\<rparr>);
          st2 = (if or_else (forcedText env) [] = [] then st1\<lparr>inputText := []\<rparr> else st1)
      in st2\<lparr>showLibrary := False\<rparr>)"

text \<open>The \<^verbatim>\<open>catch\<close> block of \<^verbatim>\<open>handleSend\<close>.\<close>

definition on_failure :: "string \<Rightarrow> int option \<Rightarrow> string option \<Rightarrow> chat_state \<Rightarrow> chat_state" where
  "on_failure tempId code msg st =
     (let st1 = st\<lparr>sentMessageIds := filter (\<lambda>k. k \<noteq> tempId) (sentMessageIds st)\<rparr>
      in if code = Some 10900 \<or> (case msg of None \<Rightarrow> False | Some t \<Rightarrow> str_includes t ''24 hour'')
         then st1\<lparr>lastError := Some window_error\<rparr>
         else st1\<lparr>lastError :=
                    Some \<lparr>err_message = or_else msg ''Failed to send message'', isPolicy = False\<rparr>\<rparr>)"

text \<open>
  \<^verbatim>\<open>handleSend(forcedText?)\<close>. \<open>add\<close> is the store's \<^verbatim>\<open>addMessage\<close>, \<open>expired\<close> the
  memoised \<^verbatim>\<open>isWindowExpired\<close> of the component. The result is the state after the
  call and the request handed to \<^verbatim>\<open>sendPageMessage\<close>, if one was made.
\<close>

definition handleSend ::
  "(message_row \<Rightarrow> message_row list \<Rightarrow> message_row list) \<Rightarrow> send_env \<Rightarrow> client_conversation
     \<Rightarrow> bool \<Rightarrow> chat_state \<Rightarrow> chat_state \<times> send_page_request option" where
  "handleSend add env conv expired st =
     (let forced = or_else (forcedText env) [];
          textToSubmit = trim (if forced = [] then inputText st else forced)
      in if textToSubmit = [] \<or> isSending st then (st, None)
         else if forced = [] \<and> \<not> validateMessageContent (approvedLinks env) textToSubmit
         then (st\<lparr>showRestrictedPopup := True\<rparr>, None)
         else
           (case find (\<lambda>p. page_id p = cc_pageId conv) (known_pages env) of
              None \<Rightarrow>
                (st\<lparr>lastError := Some \<lparr>err_message = ''Page not connected'', isPolicy = False\<rparr>\<rparr>, None)
            | Some currentPage \<Rightarrow>
                if or_else (accessToken currentPage) [] = []
                then (st\<lparr>lastError := Some \<lparr>err_message = ''Page not connected'', isPolicy = False\<rparr>\<rparr>,
                      None)
                else
                  (let st1 = (if expired then st\<lparr>lastError := Some policy_warning\<rparr> else st);
                       tempId = temp_id (clock env) (random36 env)
                   in if tempId \<in> set (sentMessageIds st1) then (st1, None)
                      else
                        (let optimistic = optimisticMessage env conv textToSubmit;
                             st2 = st1\<lparr>sentMessageIds := sentMessageIds st1 @ [tempId],
                                       view := add optimistic (view st1),
                                       isSending := True, lastError := None\<rparr>;
                             request = \<lparr>to_customer = cc_customerId conv, body_text = textToSubmit,
                                        access_token = or_else (accessToken currentPage) [],
                                        tag = (if expired then Some ''HUMAN_AGENT'' else None)\<rparr>;
                             st3 = (case outcome env of
                                      Sent message_id \<Rightarrow> on_response add env optimistic message_id st2
                                    | Failed code msg \<Rightarrow> on_failure tempId code msg st2)
                         in (st3\<lparr>isSending := False\<rparr>, Some request)))))"

text \<open>\<^verbatim>\<open>chatMessages\<close>: the messages of the open conversation, by time.\<close>

definition chatMessages :: "message_row list \<Rightarrow> string \<Rightarrow> message_row list" where
  "chatMessages msgs cid = sort_key timestamp (filter (\<lambda>m. conversationId m = cid) msgs)"

text \<open>
  \<^verbatim>\<open>syncThread\<close> once the thread has been fetched: the fetched messages whose identifier
  the view does not hold are added one by one.
\<close>

definition syncThread ::
  "(message_row \<Rightarrow> message_row list \<Rightarrow> message_row list) \<Rightarrow> message_row list
     \<Rightarrow> message_row list \<Rightarrow> message_row list" where
  "syncThread add metaMsgs v =
     foldl (\<lambda>acc m. add m acc) v (filter (\<lambda>m. msg_id m \<notin> set (map msg_id v)) metaMsgs)"

text \<open>A send of "hello" in the conversation of scenario A, from an idle chat window.\<close>

definition idle_chat :: chat_state where
  "idle_chat =
     \<lparr>view = [scenario_row], sentMessageIds = [], inputText = ''hello'', isSending = False,
      lastError = None, showLibrary = False, showRestrictedPopup = False\<rparr>"

definition chat_conversation :: client_conversation where
  "chat_conversation =
     \<lparr>cc_id = ''p1_c1'', cc_pageId = ''p1'', cc_customerId = ''c1'',
      cc_lastTime = Some 1700000000000\<rparr>"

definition send_env_ok :: send_env where
  "send_env_ok =
     \<lparr>forcedText = None, currentUser = Some \<lparr>agent_id = ''a7'', agent_name = ''Ann''\<rparr>,
      known_pages = [\<lparr>page_id = ''p1'', accessToken = Some ''tok''\<rparr>], approvedLinks = [],
      clock = 1700000003000, random36 = ''k3j9x0q2a'', clock_ts = 1700000003000,
      outcome = Sent (Some ''mid.1'')\<rparr>"

definition send_env_failed :: send_env where
  "send_env_failed = send_env_ok\<lparr>outcome := Failed (Some 500) (Some ''Network error'')\<rparr>"

text \<open>The canonical copy of that send as the platform's thread returns it.\<close>

definition canonical_copy :: message_row where
  "canonical_copy =
     \<lparr>msg_id = ''mid.1'', conversationId = ''p1_c1'', senderId = ''p1'', senderName = ''Page'',
      msg_text = ''hello'', timestamp = 1700000003200, isIncoming = False, isRead = True\<rparr>"

definition send_hello :: send_request where
  "send_hello =
     \<lparr>req_conversationId = Some ''p1_c1'', req_text = Some ''hello'',
      req_senderId = Some ''a7'', req_senderName = Some ''Ann''\<rparr>"

section \<open>Facts about lists of rows\<close>

lemma count_distinct_key:
  "distinct (map f xs) \<Longrightarrow> y \<in> set (map f xs) \<Longrightarrow> length (filter (\<lambda>x. f x = y) xs) = 1"
proof (induction xs)
  case Nil
  then show ?case by simp
next
  case (Cons a xs)
  show ?case
  proof (cases "f a = y")
    case True
    with Cons.prems have "y \<notin> f ` set xs" by auto
    then have "filter (\<lambda>x. f x = y) xs = []" by (auto simp: filter_empty_conv)
    with True show ?thesis by simp
  next
    case False
    with Cons show ?thesis by auto
  qed
qed

lemma filter_key_absent:
  "k \<notin> set (map f cs) \<Longrightarrow> filter (\<lambda>c. f c = k) cs = []"
  by (induction cs) auto

lemma map_replace_keys:
  "f row = k \<Longrightarrow> map (\<lambda>c. f (if f c = k then row else c)) cs = map f cs"
  by (induction cs) auto

lemma replace_absent:
  "k \<notin> set (map f cs) \<Longrightarrow> map (\<lambda>c. if f c = k then row else c) cs = cs"
  by (induction cs) auto

lemma replace_twice:
  "f row = k \<Longrightarrow>
   map (\<lambda>c. if f c = k then row else c) (map (\<lambda>c. if f c = k then row else c) cs)
   = map (\<lambda>c. if f c = k then row else c) cs"
  by (induction cs) auto

lemma filter_replace_new:
  "\<forall>c\<in>set cs. \<not> P c \<Longrightarrow> P row \<Longrightarrow> distinct (map f cs) \<Longrightarrow> k \<in> set (map f cs) \<Longrightarrow>
   filter P (map (\<lambda>c. if f c = k then row else c) cs) = [row]"
proof (induction cs)
  case Nil
  then show ?case by simp
next
  case (Cons a cs)
  show ?case
  proof (cases "f a = k")
    case True
    with Cons.prems have "k \<notin> set (map f cs)" by auto
    then have "map (\<lambda>c. if f c = k then row else c) cs = cs" by (rule replace_absent)
    moreover from Cons.prems have "filter P cs = []" by (auto simp: filter_empty_conv)
    ultimately show ?thesis using True Cons.prems by simp
  next
    case False
    with Cons show ?thesis by auto
  qed
qed

lemma filter_key_replace:
  "distinct (map f cs) \<Longrightarrow> k \<in> set (map f cs) \<Longrightarrow> f row = k \<Longrightarrow>
   filter (\<lambda>c. f c = k) (map (\<lambda>c. if f c = k then row else c) cs) = [row]"
proof (induction cs)
  case Nil
  then show ?case by simp
next
  case (Cons a cs)
  show ?case
  proof (cases "f a = k")
    case True
    with Cons.prems have nk: "k \<notin> set (map f cs)" by auto
    then have "map (\<lambda>c. if f c = k then row else c) cs = cs" by (rule replace_absent)
    moreover from nk have "filter (\<lambda>c. f c = k) cs = []" by (rule filter_key_absent)
    ultimately show ?thesis using True Cons.prems by simp
  next
    case False
    with Cons show ?thesis by auto
  qed
qed

lemma filter_replace_same:
  "filter P cs = [c0] \<Longrightarrow> f c0 = k \<Longrightarrow> P row \<Longrightarrow> distinct (map f cs) \<Longrightarrow>
   filter P (map (\<lambda>c. if f c = k then row else c) cs) = [row]"
proof (induction cs)
  case Nil
  then show ?case by simp
next
  case (Cons a cs)
  have "c0 \<in> set (filter P (a # cs))" using Cons.prems(1) by simp
  then have c0in: "c0 \<in> set (a # cs)" "P c0" by (auto split: if_splits)
  show ?case
  proof (cases "f a = k")
    case True
    with Cons.prems have nk: "k \<notin> set (map f cs)" by auto
    with c0in Cons.prems(2) have "c0 = a" by (metis imageI set_ConsD set_map)
    with Cons.prems(1) c0in have "filter P cs = []" by simp
    moreover from nk have "map (\<lambda>c. if f c = k then row else c) cs = cs" by (rule replace_absent)
    ultimately show ?thesis using True Cons.prems by simp
  next
    case False
    with Cons.prems(2) have "a \<noteq> c0" by auto
    with Cons.prems(1) have "\<not> P a" by (cases "P a") auto
    with Cons False show ?thesis by auto
  qed
qed

lemma filter_map_commute:
  "(\<And>c. P (g c) = P c) \<Longrightarrow> filter P (map g cs) = map g (filter P cs)"
  by (induction cs) auto

section \<open>Facts about the store operations\<close>

lemma upsert_rejected:
  "\<not> timestamptz_accepts (lastTimestamp row) \<or> pageId row \<notin> set (pages st) \<Longrightarrow>
   upsert_conversation row st = st"
  by (auto simp: upsert_conversation_def)

lemma upsert_conv_ids:
  "timestamptz_accepts (lastTimestamp row) \<Longrightarrow> pageId row \<in> set (pages st) \<Longrightarrow>
   set (map conv_id (conversations (upsert_conversation row st))) =
   insert (conv_id row) (set (map conv_id (conversations st)))"
  by (auto simp: upsert_conversation_def)

lemma upsert_distinct:
  "distinct (map conv_id (conversations st)) \<Longrightarrow>
   distinct (map conv_id (conversations (upsert_conversation row st)))"
  by (simp add: upsert_conversation_def o_def map_replace_keys)

lemma upsert_pages: "pages (upsert_conversation row st) = pages st"
  by (simp add: upsert_conversation_def)

lemma upsert_messages: "messages (upsert_conversation row st) = messages st"
  by (simp add: upsert_conversation_def)

lemma upsert_idem:
  "upsert_conversation row (upsert_conversation row st) = upsert_conversation row st"
proof (cases "timestamptz_accepts (lastTimestamp row) \<and> pageId row \<in> set (pages st)")
  case False
  then show ?thesis by (auto simp: upsert_conversation_def)
next
  case True
  show ?thesis
  proof (cases "conv_id row \<in> set (map conv_id (conversations st))")
    case in_st: True
    with True in_st show ?thesis
      by (simp add: upsert_conversation_def o_def map_replace_keys replace_twice del: set_map)
  next
    case False
    with True show ?thesis
      by (simp add: upsert_conversation_def replace_absent del: set_map)
  qed
qed

text \<open>Repeating an upsert on a store that already holds its outcome changes nothing.\<close>

lemma upsert_again:
  assumes c: "conversations s = conversations (upsert_conversation row st)"
    and p: "pages s = pages st"
  shows "upsert_conversation row s = s"
proof (cases "timestamptz_accepts (lastTimestamp row) \<and> pageId row \<in> set (pages st)")
  case False
  with p show ?thesis by (auto simp: upsert_conversation_def)
next
  case True
  let ?rep = "\<lambda>c. if conv_id c = conv_id row then row else c"
  show ?thesis
  proof (cases "conv_id row \<in> set (map conv_id (conversations st))")
    case in_st: True
    with True c have cs: "conversations s = map ?rep (conversations st)"
      by (simp add: upsert_conversation_def del: set_map)
    then have ids: "map conv_id (conversations s) = map conv_id (conversations st)"
      by (simp add: o_def map_replace_keys)
    have "map ?rep (conversations s) = conversations s"
      unfolding cs by (rule replace_twice) simp
    with True in_st p ids show ?thesis
      by (simp add: upsert_conversation_def del: set_map)
  next
    case False
    with True c have cs: "conversations s = conversations st @ [row]"
      by (simp add: upsert_conversation_def del: set_map)
    have "map ?rep (conversations st) = conversations st"
      using False by (rule replace_absent)
    then have "map ?rep (conversations s) = conversations s"
      by (simp add: cs)
    moreover have "conv_id row \<in> set (map conv_id (conversations s))" by (simp add: cs)
    ultimately show ?thesis using True p
      by (simp add: upsert_conversation_def del: set_map)
  qed
qed

lemma replaced_mem:
  "k \<in> set (map f cs) \<Longrightarrow> row \<in> set (map (\<lambda>c. if f c = k then row else c) cs)"
  by (induction cs) auto

lemma upsert_applied_mem:
  assumes "timestamptz_accepts (lastTimestamp row)" and "pageId row \<in> set (pages st)"
  shows "row \<in> set (conversations (upsert_conversation row st))"
proof (cases "conv_id row \<in> set (map conv_id (conversations st))")
  case True
  then have "row \<in> set (map (\<lambda>c. if conv_id c = conv_id row then row else c) (conversations st))"
    by (rule replaced_mem)
  with True assms show ?thesis by (simp add: upsert_conversation_def del: set_map)
next
  case False
  with assms show ?thesis by (simp add: upsert_conversation_def del: set_map)
qed

lemma new_conversation_fields [simp]:
  "conv_id (new_conversation pid sid txt ts) = conversationId_of pid sid"
  "pageId (new_conversation pid sid txt ts) = pid"
  "customerId (new_conversation pid sid txt ts) = sid"
  "lastMessage (new_conversation pid sid txt ts) = txt"
  "lastTimestamp (new_conversation pid sid txt ts) = ts"
  "status (new_conversation pid sid txt ts) = OPEN"
  "unreadCount (new_conversation pid sid txt ts) = 1"
  by (simp_all add: new_conversation_def)

lemma conversationId_of_nonempty [simp]: "conversationId_of pid sid \<noteq> []"
  by (simp add: conversationId_of_def)

lemma conversations_of_cong:
  "conversations a = conversations b \<Longrightarrow> conversations_of a sid pid = conversations_of b sid pid"
  by (simp add: conversations_of_def)

lemma conversations_with_id_cong:
  "conversations a = conversations b \<Longrightarrow> conversations_with_id a k = conversations_with_id b k"
  by (simp add: conversations_with_id_def)

lemma select_via_of:
  "select_conversation_single st sid pid =
     (case conversations_of st sid pid of [c] \<Rightarrow> Some c | _ \<Rightarrow> None)"
  by (simp add: select_conversation_single_def conversations_of_def)

lemma upsert_new_of:
  assumes "conversations_of st sid pid = []" and "pid \<in> set (pages st)"
    and "distinct (map conv_id (conversations st))"
    and acc: "timestamptz_accepts ts"
  shows "conversations_of (upsert_conversation (new_conversation pid sid tx ts) st) sid pid
         = [new_conversation pid sid tx ts]"
proof -
  let ?row = "new_conversation pid sid tx ts"
  let ?P = "\<lambda>c. customerId c = sid \<and> pageId c = pid"
  from assms(1) have none: "\<forall>c\<in>set (conversations st). \<not> ?P c"
    by (auto simp: conversations_of_def filter_empty_conv)
  show ?thesis
  proof (cases "conv_id ?row \<in> set (map conv_id (conversations st))")
    case True
    have "filter ?P (map (\<lambda>c. if conv_id c = conv_id ?row then ?row else c) (conversations st))
          = [?row]"
      by (rule filter_replace_new[OF none _ assms(3) True]) simp
    with True assms(2) acc show ?thesis
      by (simp add: conversations_of_def upsert_conversation_def del: set_map)
  next
    case False
    with assms(1,2) acc show ?thesis
      by (simp add: conversations_of_def upsert_conversation_def del: set_map)
  qed
qed

lemma upsert_new_with_id:
  assumes "pid \<in> set (pages st)" and "distinct (map conv_id (conversations st))"
    and acc: "timestamptz_accepts ts"
  shows "conversations_with_id (upsert_conversation (new_conversation pid sid tx ts) st)
           (conversationId_of pid sid) = [new_conversation pid sid tx ts]"
proof -
  let ?row = "new_conversation pid sid tx ts"
  show ?thesis
  proof (cases "conv_id ?row \<in> set (map conv_id (conversations st))")
    case True
    have "filter (\<lambda>c. conv_id c = conv_id ?row)
            (map (\<lambda>c. if conv_id c = conv_id ?row then ?row else c) (conversations st)) = [?row]"
      by (rule filter_key_replace[OF assms(2) True]) simp
    with True assms(1) acc show ?thesis
      by (simp add: conversations_with_id_def upsert_conversation_def del: set_map)
  next
    case False
    then have "filter (\<lambda>c. conv_id c = conversationId_of pid sid) (conversations st) = []"
      by (simp add: filter_key_absent del: set_map)
    with False assms(1) acc show ?thesis
      by (simp add: conversations_with_id_def upsert_conversation_def del: set_map)
  qed
qed

lemma upsert_existing_of:
  assumes "conversations_of st sid pid = [c0]" and "conv_id c0 = conversationId_of pid sid"
    and "pid \<in> set (pages st)" and "distinct (map conv_id (conversations st))"
    and acc: "timestamptz_accepts ts"
  shows "conversations_of (upsert_conversation (new_conversation pid sid tx ts) st) sid pid
         = [new_conversation pid sid tx ts]"
proof -
  let ?row = "new_conversation pid sid tx ts"
  let ?P = "\<lambda>c. customerId c = sid \<and> pageId c = pid"
  have "c0 \<in> set (conversations_of st sid pid)" by (simp add: assms(1))
  then have "c0 \<in> set (conversations st)" by (simp add: conversations_of_def)
  then have m: "conv_id ?row \<in> set (map conv_id (conversations st))"
    using assms(2) by (metis imageI new_conversation_fields(1) set_map)
  have "filter ?P (map (\<lambda>c. if conv_id c = conv_id ?row then ?row else c) (conversations st))
        = [?row]"
    by (rule filter_replace_same[OF assms(1)[unfolded conversations_of_def] _ _ assms(4)])
       (simp_all add: assms(2))
  with m assms(3) acc show ?thesis
    by (simp add: conversations_of_def upsert_conversation_def del: set_map)
qed

lemma insert_message_frame [simp]:
  "conversations (snd (insert_message r st)) = conversations st"
  "pages (snd (insert_message r st)) = pages st"
  by (simp_all add: insert_message_def)

lemma insert_message_present:
  "msg_id r \<in> set (map msg_id (messages st)) \<Longrightarrow> snd (insert_message r st) = st"
  by (simp add: insert_message_def)

lemma insert_message_stored:
  "conversationId r \<in> set (map conv_id (conversations st)) \<Longrightarrow>
   msg_id r \<in> set (map msg_id (messages (snd (insert_message r st))))"
  by (simp add: insert_message_def)

lemma insert_message_distinct:
  "distinct (map msg_id (messages st)) \<Longrightarrow>
   distinct (map msg_id (messages (snd (insert_message r st))))"
  by (simp add: insert_message_def)

lemma insert_message_fresh:
  "msg_id r \<notin> set (map msg_id (messages st)) \<Longrightarrow>
   conversationId r \<in> set (map conv_id (conversations st)) \<Longrightarrow>
   insert_message r st = (None, st\<lparr>messages := messages st @ [r]\<rparr>)"
  by (simp add: insert_message_def)

lemma inbound_row_fields [simp]:
  "msg_id (inbound_row k cid sid txt ts) = k"
  "conversationId (inbound_row k cid sid txt ts) = cid"
  "isIncoming (inbound_row k cid sid txt ts) = True"
  "isRead (inbound_row k cid sid txt ts) = False"
  by (simp_all add: inbound_row_def)

lemma insert_message_iso_frame [simp]:
  "conversations (snd (insert_message_iso r st)) = conversations st"
  "pages (snd (insert_message_iso r st)) = pages st"
  by (simp_all add: insert_message_iso_def)

lemma insert_message_iso_accepted:
  "timestamptz_accepts (timestamp r) \<Longrightarrow> insert_message_iso r st = insert_message r st"
  by (simp add: insert_message_iso_def)

lemma insert_message_iso_twice:
  "snd (insert_message_iso r (snd (insert_message_iso r st))) = snd (insert_message_iso r st)"
  by (simp add: insert_message_iso_def insert_message_def)

lemma insert_message_iso_distinct:
  "distinct (map msg_id (messages st)) \<Longrightarrow>
   distinct (map msg_id (messages (snd (insert_message_iso r st))))"
  by (simp add: insert_message_iso_def insert_message_def)

lemma inbound_row_timestamp [simp]: "timestamp (inbound_row k cid sid txt ts) = ts"
  by (simp add: inbound_row_def)

text \<open>The update that carries the request builder is rejected.\<close>

lemma update_inbound_builder [simp]:
  "update_conversation_inbound cid txt ts (Request_builder f) st = st"
  by (simp add: update_conversation_inbound_def)

lemma map_read_in_unknown:
  "set ids \<inter> set (map msg_id ms) = {} \<Longrightarrow>
   map (\<lambda>m. if msg_id m \<in> set ids then m\<lparr>isRead := True\<rparr> else m) ms = ms"
  by (induction ms) auto

lemma update_read_in_unknown:
  "set ids \<inter> set (map msg_id (messages st)) = {} \<Longrightarrow> update_messages_read_in ids st = st"
  by (simp add: update_messages_read_in_def map_read_in_unknown)

lemma update_read_in_empty: "update_messages_read_in [] st = st"
  by (simp add: update_messages_read_in_def)

section \<open>Facts about the handlers\<close>

lemma handleMessage_valid:
  assumes "message ev = Some m" "text_of m = Some tx" "tx \<noteq> []"
    "toISOString (ev_timestamp ev) = Inr ts"
  shows "handleMessage ev pid sid st =
    handleMessage_writes (select_conversation_single st sid pid) (mid m) pid sid tx ts st"
  using assms by (simp add: handleMessage_def)

lemma handleMessage_skipped:
  assumes "\<not> (\<exists>m tx ts. message ev = Some m \<and> text_of m = Some tx \<and> tx \<noteq> []
              \<and> toISOString (ev_timestamp ev) = Inr ts)"
  shows "store_of (handleMessage ev pid sid st) = st"
  using assms
  by (auto simp: handleMessage_def store_of_def split: option.splits sum.splits)

lemma store_of_writes:
  "store_of (handleMessage_writes ex k pid sid tx ts st) =
   snd (insert_message_iso (inbound_row k (message_conversationId ex pid sid) sid tx ts)
          (fst (write_conversation ex pid sid tx ts st)))"
  by (auto simp: handleMessage_writes_def store_message_def store_of_def
      split: prod.splits option.splits)

lemma select_cong:
  "conversations a = conversations b \<Longrightarrow>
   select_conversation_single a sid pid = select_conversation_single b sid pid"
  by (simp add: select_conversation_single_def)

lemma select_Some_of:
  "select_conversation_single st sid pid = Some c \<Longrightarrow> conversations_of st sid pid = [c]"
  by (auto simp: select_via_of split: list.splits)

text \<open>The store after the writes for a customer without a conversation on the page.\<close>

lemma once_new:
  fixes k tx :: string and ts :: int
  assumes pk: "primary_keys st" and page: "pid \<in> set (pages st)"
    and new: "conversations_of st sid pid = []"
    and acc: "timestamptz_accepts ts"
  defines "once \<equiv> store_of (handleMessage_writes None k pid sid tx ts st)"
  shows "conversations once = conversations (upsert_conversation (new_conversation pid sid tx ts) st)"
    and "pages once = pages st"
    and "conversations_of once sid pid = [new_conversation pid sid tx ts]"
    and "conversations_with_id once (conversationId_of pid sid) = [new_conversation pid sid tx ts]"
    and "k \<in> set (map msg_id (messages once))"
    and "primary_keys once"
    and "k \<notin> set (map msg_id (messages st)) \<Longrightarrow>
           messages once = messages st @ [inbound_row k (conversationId_of pid sid) sid tx ts]"
proof -
  let ?row = "new_conversation pid sid tx ts"
  let ?W = "upsert_conversation ?row st"
  let ?r = "inbound_row k (conversationId_of pid sid) sid tx ts"
  have once: "once = snd (insert_message ?r ?W)"
    using acc
    by (simp add: once_def store_of_writes write_conversation_def message_conversationId_def
        insert_message_iso_accepted)
  from pk have dc: "distinct (map conv_id (conversations st))"
    and dm: "distinct (map msg_id (messages st))" by (simp_all add: primary_keys_def)
  show c: "conversations once = conversations ?W" by (simp add: once)
  show "pages once = pages st" by (simp add: once upsert_pages)
  show "conversations_of once sid pid = [?row]"
    using upsert_new_of[OF new page dc acc] conversations_of_cong[OF c] by simp
  show "conversations_with_id once (conversationId_of pid sid) = [?row]"
    using upsert_new_with_id[OF page dc acc] conversations_with_id_cong[OF c] by simp
  have fk: "conversationId ?r \<in> set (map conv_id (conversations ?W))"
    using upsert_conv_ids[of ?row st] page acc by simp
  show "k \<in> set (map msg_id (messages once))"
    using insert_message_stored[OF fk] by (simp add: once)
  have "distinct (map msg_id (messages ?W))" using dm by (simp add: upsert_messages)
  then have "distinct (map msg_id (messages once))"
    unfolding once by (rule insert_message_distinct)
  moreover have "distinct (map conv_id (conversations once))"
    using upsert_distinct[OF dc] c by simp
  ultimately show "primary_keys once" by (simp add: primary_keys_def)
  show "messages once = messages st @ [?r]" if "k \<notin> set (map msg_id (messages st))"
    using insert_message_fresh[of ?r ?W] fk that by (simp add: once upsert_messages)
qed

text \<open>
  The store after the writes for a customer whose conversation the lookup found: the
  update is rejected, so the conversations are as before.
\<close>

lemma once_existing:
  fixes k tx pid sid :: string and ts :: int and c :: conversation and st :: store
  defines "once \<equiv> store_of (handleMessage_writes (Some c) k pid sid tx ts st)"
  shows "conversations once = conversations st"
    and "pages once = pages st"
    and "primary_keys st \<Longrightarrow> primary_keys once"
proof -
  let ?r = "inbound_row k (message_conversationId (Some c) pid sid) sid tx ts"
  have once: "once = snd (insert_message_iso ?r st)"
    by (simp add: once_def store_of_writes write_conversation_def)
  show "conversations once = conversations st" by (simp add: once)
  show "pages once = pages st" by (simp add: once)
  show "primary_keys once" if "primary_keys st"
    using that insert_message_iso_distinct[of st ?r] by (simp add: primary_keys_def once)
qed

text \<open>Handling the same message again, from the store the first handling left.\<close>

lemma writes_replay:
  fixes k tx pid sid :: string and ts :: int and st :: store
  defines "once \<equiv>
    store_of (handleMessage_writes (select_conversation_single st sid pid) k pid sid tx ts st)"
  shows "store_of (handleMessage_writes (select_conversation_single once sid pid)
           k pid sid tx ts once) = once"
proof (cases "select_conversation_single st sid pid")
  case (Some c)
  let ?r = "inbound_row k (message_conversationId (Some c) pid sid) sid tx ts"
  have once: "once = snd (insert_message_iso ?r st)"
    by (simp add: once_def Some store_of_writes write_conversation_def)
  then have "conversations once = conversations st" by simp
  then have s2: "select_conversation_single once sid pid = Some c"
    using Some select_cong by metis
  have again: "snd (insert_message_iso ?r once) = once"
    by (metis once insert_message_iso_twice)
  show ?thesis
    unfolding s2 by (simp add: store_of_writes write_conversation_def again)
next
  case None
  let ?row = "new_conversation pid sid tx ts"
  let ?W = "upsert_conversation ?row st"
  let ?r = "inbound_row k (conversationId_of pid sid) sid tx ts"
  have once: "once = snd (insert_message_iso ?r ?W)"
    by (simp add: once_def None store_of_writes write_conversation_def
        message_conversationId_def)
  then have c: "conversations once = conversations ?W" and p: "pages once = pages st"
    by (simp_all add: upsert_pages)
  have again: "snd (insert_message_iso ?r once) = once"
    by (metis once insert_message_iso_twice)
  show ?thesis
  proof (cases "select_conversation_single once sid pid")
    case none: None
    have up: "upsert_conversation ?row once = once" by (rule upsert_again[OF c p])
    show ?thesis
      unfolding none
      by (simp add: store_of_writes write_conversation_def message_conversationId_def up again)
  next
    case (Some c')
    have applied: "timestamptz_accepts ts \<and> pid \<in> set (pages st)"
    proof (rule ccontr)
      assume "\<not> (timestamptz_accepts ts \<and> pid \<in> set (pages st))"
      then have "?W = st" by (intro upsert_rejected) auto
      with c have "conversations once = conversations st" by simp
      then have "select_conversation_single once sid pid = select_conversation_single st sid pid"
        by (rule select_cong)
      with Some None show False by simp
    qed
    then have "?row \<in> set (conversations ?W)" by (intro upsert_applied_mem) simp_all
    then have "?row \<in> set (conversations_of once sid pid)"
      by (simp add: conversations_of_def c)
    then have "c' = ?row" using select_Some_of[OF Some] by simp
    then have cid: "message_conversationId (Some c') pid sid = conversationId_of pid sid"
      by (simp add: message_conversationId_def)
    show ?thesis
      unfolding Some by (simp add: store_of_writes write_conversation_def cid again)
  qed
qed

lemma handleMessage_replay:
  "store_of (handleMessage ev pid sid (store_of (handleMessage ev pid sid st)))
     = store_of (handleMessage ev pid sid st)"
proof (cases "\<exists>m tx ts. message ev = Some m \<and> text_of m = Some tx \<and> tx \<noteq> []
              \<and> toISOString (ev_timestamp ev) = Inr ts")
  case False
  then show ?thesis by (simp add: handleMessage_skipped)
next
  case True
  then obtain m tx ts where v: "message ev = Some m" "text_of m = Some tx" "tx \<noteq> []"
    "toISOString (ev_timestamp ev) = Inr ts" by blast
  show ?thesis
    unfolding handleMessage_valid[OF v] by (rule writes_replay)
qed

lemma handleMessage_existing_conversations:
  assumes "select_conversation_single st sid pid = Some c"
  shows "conversations (store_of (handleMessage ev pid sid st)) = conversations st"
proof (cases "\<exists>m tx ts. message ev = Some m \<and> text_of m = Some tx \<and> tx \<noteq> []
              \<and> toISOString (ev_timestamp ev) = Inr ts")
  case False
  then show ?thesis by (simp add: handleMessage_skipped)
next
  case True
  then obtain m tx ts where v: "message ev = Some m" "text_of m = Some tx" "tx \<noteq> []"
    "toISOString (ev_timestamp ev) = Inr ts" by blast
  show ?thesis
    unfolding handleMessage_valid[OF v] assms by (rule once_existing(1))
qed

text \<open>What the handlers let escape to the loop of the route.\<close>

lemma handleMessage_no_raise:
  "message ev \<noteq> None \<Longrightarrow> raised (handleMessage ev pid sid st) = None"
  by (auto simp: handleMessage_def handleMessage_writes_def raised_def Let_def
      split: option.splits sum.splits prod.splits)

lemma handleDelivery_no_raise: "delivery ev \<noteq> None \<Longrightarrow> raised (handleDelivery ev st) = None"
  by (auto simp: handleDelivery_def raised_def split: option.splits)

lemma handleRead_no_raise: "read ev \<noteq> None \<Longrightarrow> raised (handleRead ev st) = None"
  by (auto simp: handleRead_def raised_def split: option.splits sum.splits)

lemma process_entry_raises_iff:
  "raised (process_entry e st) \<noteq> None \<longleftrightarrow> entry_unreadable e"
  using handleMessage_no_raise handleDelivery_no_raise handleRead_no_raise
  by (auto simp: process_entry_def entry_unreadable_def raised_def
      split: option.splits list.splits)

lemma process_entry_unreadable:
  "entry_unreadable e \<Longrightarrow> process_entry e st = (Some TypeError, st, [])"
  by (auto simp: process_entry_def entry_unreadable_def split: option.splits list.splits)

lemma process_entries_step:
  assumes "raised (process_entry e st) = None"
  shows "process_entries (e # es) st =
     (case process_entries es (store_of (process_entry e st)) of
        (r, st', lg) \<Rightarrow> (r, st', log_of (process_entry e st) @ lg))"
  using assms
  by (cases "process_entry e st")
     (auto simp: raised_def store_of_def log_of_def split: option.splits prod.splits)

lemma process_entry_first_only: "process_entry (first_only e) st = process_entry e st"
  by (auto simp: process_entry_def first_only_def split: option.splits list.splits)

lemma process_entries_first_only:
  "process_entries (map first_only es) st = process_entries es st"
  by (induction es arbitrary: st)
     (auto simp: process_entry_first_only split: prod.splits option.splits)

text \<open>The scenarios, evaluated.\<close>

lemmas route_defs =
  webhook_post_def process_entry_def handleMessage_def handleMessage_writes_def
  handleDelivery_def handleRead_def write_conversation_def store_message_def
  message_conversationId_def select_conversation_single_def upsert_conversation_def
  update_conversation_inbound_def insert_message_def insert_message_iso_def
  timestamptz_accepts_def update_messages_read_in_def
  update_messages_read_lte_def new_conversation_def inbound_row_def conversationId_of_def
  user_name_def toISOString_def store_of_def log_of_def raised_def

lemmas scenario_defs =
  scenario_store_def scenario_message_def scenario_body_def scenario_message2_def
  scenario_body2_def scenario_row2_def far_future_body_def
  scenario_conversation_def scenario_row_def scenario_store_A_def scenario_delivery_def
  two_customer_store_def scenario_read_def malformed_entry_def

lemma scenario_A_run:
  "webhook_post scenario_body scenario_store =
     (\<lparr>http_status = 200, http_body = ''EVENT_RECEIVED''\<rparr>, scenario_store_A,
      [LogInfo ''New conversation created'',
       LogInfo ''Message stored and pushed to clients (real-time)''])"
  by (simp add: route_defs scenario_defs)

lemma scenario_B_run:
  "webhook_post scenario_body scenario_store_A =
     (\<lparr>http_status = 200, http_body = ''EVENT_RECEIVED''\<rparr>,
      scenario_store_A, [LogError ''Error storing message''])"
  by (simp add: route_defs scenario_defs)

lemma scenario_second_message_run:
  "webhook_post scenario_body2 scenario_store_A =
     (\<lparr>http_status = 200, http_body = ''EVENT_RECEIVED''\<rparr>,
      scenario_store_A\<lparr>messages := [scenario_row, scenario_row2]\<rparr>,
      [LogInfo ''Message stored and pushed to clients (real-time)''])"
  by (simp add: route_defs scenario_defs)

text \<open>A timestamp the store does not accept: the handler goes through, nothing is stored.\<close>

lemma far_future_run:
  "webhook_post far_future_body scenario_store =
     (\<lparr>http_status = 200, http_body = ''EVENT_RECEIVED''\<rparr>, scenario_store,
      [LogInfo ''New conversation created'', LogError ''Error storing message''])"
  by (simp add: route_defs scenario_defs)

section \<open>Inbound messages\<close>

text \<open>
  Claim C1: the code around the failing input. Handling the identical inbound message a
  second time never changes the store: whatever the event and the store, the store after
  the second handling is the store after the first. But a message for a customer whose
  conversation the lookup finds leaves every conversation as it was: the update that
  should raise the unread counter carries the request builder of
  \<open>rpc('increment', { x: 1 })\<close> as the counter and is rejected, so the counter is not
  incremented at all, and last message and last time are not set either.
\<close>

theorem inbound_replay_unchanged_increment_missed:
  "store_of (handleMessage ev pid sid (store_of (handleMessage ev pid sid st)))
     = store_of (handleMessage ev pid sid st)
   \<and> (select_conversation_single st sid pid = Some c \<longrightarrow>
        conversations (store_of (handleMessage ev pid sid st)) = conversations st)"
  using handleMessage_replay[of ev pid sid st]
    handleMessage_existing_conversations[of st sid pid c ev]
  by blast

text \<open>
  Witness for C1: after scenario A the customer \<open>c1\<close> sends a second message \<open>m2\<close>. The
  message is stored, and conversation \<open>p1_c1\<close> still has unread counter 1 and last
  message "Hi". Replaying the payload of scenario A changes nothing.
\<close>

theorem inbound_replay_witness:
  "select_conversation_single scenario_store_A ''c1'' ''p1'' = Some scenario_conversation
   \<and> conversations (store_of (handleMessage scenario_message2 ''p1'' ''c1'' scenario_store_A))
       = [scenario_conversation]
   \<and> unreadCount scenario_conversation = 1 \<and> lastMessage scenario_conversation = ''Hi''
   \<and> store_of (webhook_post scenario_body2 scenario_store_A)
       = scenario_store_A\<lparr>messages := [scenario_row, scenario_row2]\<rparr>
   \<and> map unreadCount (conversations (store_of (webhook_post scenario_body2 scenario_store_A)))
       = [1]
   \<and> store_of (webhook_post scenario_body (store_of (webhook_post scenario_body scenario_store)))
       = store_of (webhook_post scenario_body scenario_store)"
proof -
  have s: "select_conversation_single scenario_store_A ''c1'' ''p1'' = Some scenario_conversation"
    by (simp add: select_conversation_single_def scenario_store_A_def scenario_conversation_def)
  have c: "conversations (store_of (handleMessage scenario_message2 ''p1'' ''c1'' scenario_store_A))
       = conversations scenario_store_A"
    using inbound_replay_unchanged_increment_missed[of scenario_message2 "''p1''" "''c1''"
        scenario_store_A scenario_conversation] s by blast
  have a: "store_of (webhook_post scenario_body scenario_store) = scenario_store_A"
    by (simp add: scenario_A_run store_of_def)
  have b: "store_of (webhook_post scenario_body scenario_store_A) = scenario_store_A"
    by (simp add: scenario_B_run store_of_def)
  have d: "store_of (webhook_post scenario_body2 scenario_store_A)
       = scenario_store_A\<lparr>messages := [scenario_row, scenario_row2]\<rparr>"
    by (simp add: scenario_second_message_run store_of_def)
  show ?thesis
    unfolding a b d c using s
    by (simp add: scenario_store_A_def scenario_conversation_def)
qed



section \<open>Receipts\<close>



text \<open>
  Claim C4: the code at the failing input. The read receipt of customer \<open>c1\<close> with
  watermark 200 marks the messages at or before the watermark as read in every
  conversation: \<open>a1\<close> (time 200, the boundary) of conversation \<open>p1_c1\<close> and also \<open>b1\<close>
  (time 150) of conversation \<open>p1_c2\<close>; \<open>a2\<close> (time 201) stays unread.
\<close>

theorem read_receipt_marks_other_conversations:
  "map (\<lambda>r. (msg_id r, conversationId r, timestamp r, isRead r)) (messages two_customer_store)
     = [(''a1'', ''p1_c1'', 200, False), (''b1'', ''p1_c2'', 150, False),
        (''a2'', ''p1_c1'', 201, False)]
   \<and> map (\<lambda>r. (msg_id r, conversationId r, timestamp r, isRead r))
       (messages (store_of (webhook_post
          \<lparr>object = Some ''page'', entry = Some [\<lparr>messaging = Some [scenario_read]\<rparr>]\<rparr>
          two_customer_store)))
     = [(''a1'', ''p1_c1'', 200, True), (''b1'', ''p1_c2'', 150, True),
        (''a2'', ''p1_c1'', 201, False)]"
  by (simp add: route_defs scenario_defs)

section \<open>The route as a whole\<close>

text \<open>
  Claim C5, as amended. Nothing escapes the POST handler. An entry whose messaging list
  is empty, and a first sub-event that is neither a message, a delivery nor a read,
  produce no event, no state change and no log line. A message without text (or with
  empty text) is dropped with a warning and no state change. A shape whose fields cannot
  be read is an error to the code: an entry without a messaging array or a first
  sub-event without sender or recipient raises a \<open>TypeError\<close> in the loop, and a body
  without an entry list makes the loop itself throw; the handler's \<open>try\<close> catches it
  and logs it as an error, and that entry changes no state.
\<close>

theorem malformed_payload_outcomes:
  "(messaging e = Some [] \<longrightarrow> process_entry e st = (None, st, []))
   \<and> (messaging e = Some (ev # rest) \<and> sender ev = Some sid \<and> recipient ev = Some pid
        \<and> message ev = None \<and> delivery ev = None \<and> read ev = None
       \<longrightarrow> process_entry e st = (None, st, []))
   \<and> (messaging e = Some (ev # rest) \<and> sender ev = Some sid \<and> recipient ev = Some pid
        \<and> message ev = Some m \<and> (text_of m = None \<or> text_of m = Some [])
       \<longrightarrow> process_entry e st = (None, st, [LogWarn ''Received non-text message, skipping'']))
   \<and> (entry_unreadable e
       \<longrightarrow> process_entry e st = (Some TypeError, st, [])
         \<and> webhook_post \<lparr>object = Some ''page'', entry = Some (e # es)\<rparr> st
             = (\<lparr>http_status = 200, http_body = ''EVENT_RECEIVED''\<rparr>, st,
                [LogError ''Error processing webhook event'']))
   \<and> webhook_post \<lparr>object = Some ''page'', entry = None\<rparr> st
       = (\<lparr>http_status = 200, http_body = ''EVENT_RECEIVED''\<rparr>, st,
          [LogError ''Error processing webhook event''])"
proof -
  have a: "messaging e = Some [] \<longrightarrow> process_entry e st = (None, st, [])"
    by (simp add: process_entry_def)
  have b: "messaging e = Some (ev # rest) \<and> sender ev = Some sid \<and> recipient ev = Some pid
        \<and> message ev = None \<and> delivery ev = None \<and> read ev = None
       \<longrightarrow> process_entry e st = (None, st, [])"
    by (simp add: process_entry_def)
  have c: "messaging e = Some (ev # rest) \<and> sender ev = Some sid \<and> recipient ev = Some pid
        \<and> message ev = Some m \<and> (text_of m = None \<or> text_of m = Some [])
       \<longrightarrow> process_entry e st = (None, st, [LogWarn ''Received non-text message, skipping''])"
    by (auto simp: process_entry_def handleMessage_def)
  have d: "entry_unreadable e
       \<longrightarrow> process_entry e st = (Some TypeError, st, [])
         \<and> webhook_post \<lparr>object = Some ''page'', entry = Some (e # es)\<rparr> st
             = (\<lparr>http_status = 200, http_body = ''EVENT_RECEIVED''\<rparr>, st,
                [LogError ''Error processing webhook event''])"
    by (simp add: process_entry_unreadable webhook_post_def)
  have e: "webhook_post \<lparr>object = Some ''page'', entry = None\<rparr> st
       = (\<lparr>http_status = 200, http_body = ''EVENT_RECEIVED''\<rparr>, st,
          [LogError ''Error processing webhook event''])"
    by (simp add: webhook_post_def)
  from a b c d e show ?thesis by blast
qed

text \<open>
  Witness for C5: an entry with an empty messaging list, a sub-event of no known kind, a
  message that carries no text, and an entry without a messaging array, each on the
  store of scenario A.
\<close>

theorem malformed_payload_witness:
  "process_entry \<lparr>messaging = Some []\<rparr> scenario_store_A = (None, scenario_store_A, [])
   \<and> process_entry \<lparr>messaging = Some [scenario_message\<lparr>message := None\<rparr>]\<rparr> scenario_store_A
       = (None, scenario_store_A, [])
   \<and> process_entry
        \<lparr>messaging = Some [scenario_message\<lparr>message := Some \<lparr>mid = ''m9'', text_of = None\<rparr>\<rparr>]\<rparr>
        scenario_store_A
       = (None, scenario_store_A, [LogWarn ''Received non-text message, skipping''])
   \<and> entry_unreadable malformed_entry
   \<and> webhook_post \<lparr>object = Some ''page'', entry = Some [malformed_entry]\<rparr> scenario_store_A
       = (\<lparr>http_status = 200, http_body = ''EVENT_RECEIVED''\<rparr>, scenario_store_A,
          [LogError ''Error processing webhook event''])"
proof -
  have u: "entry_unreadable malformed_entry"
    by (simp add: entry_unreadable_def malformed_entry_def)
  from malformed_payload_outcomes[of "\<lparr>messaging = Some []\<rparr>" scenario_store_A]
       malformed_payload_outcomes[of "\<lparr>messaging = Some [scenario_message\<lparr>message := None\<rparr>]\<rparr>"
          scenario_store_A "scenario_message\<lparr>message := None\<rparr>" "[]" "''c1''" "''p1''"]
       malformed_payload_outcomes[of
          "\<lparr>messaging = Some [scenario_message\<lparr>message := Some \<lparr>mid = ''m9'', text_of = None\<rparr>\<rparr>]\<rparr>"
          scenario_store_A
          "scenario_message\<lparr>message := Some \<lparr>mid = ''m9'', text_of = None\<rparr>\<rparr>" "[]"
          "''c1''" "''p1''" "\<lparr>mid = ''m9'', text_of = None\<rparr>"]
       malformed_payload_outcomes[of malformed_entry scenario_store_A _ _ _ _ _ "[]"] u
  show ?thesis
    by (simp add: scenario_message_def)
qed

text \<open>
  Counterexample to C5 as stated: a payload whose only entry has no messaging array does
  not degrade silently, the handler logs an error.
\<close>

theorem malformed_payload_counterexample:
  "log_of (webhook_post \<lparr>object = Some ''page'', entry = Some [malformed_entry]\<rparr> scenario_store)
     = [LogError ''Error processing webhook event'']
   \<and> filter is_error
        (log_of (webhook_post \<lparr>object = Some ''page'', entry = Some [malformed_entry]\<rparr>
           scenario_store)) \<noteq> []"
  by (simp add: route_defs scenario_defs)

text \<open>
  Claim C6, as amended. A failure inside the handling of an event does not block the
  entries after it: whenever the fields of an entry can be read, its handler lets nothing
  escape, whatever it met (an invalid or missing timestamp or watermark, a write that the
  store rejects), and the loop goes on with the remaining entries from the store that
  handler left. In particular a message whose timestamp is invalid and a read receipt
  whose watermark is invalid log their error, change nothing, and the remaining entries
  are processed as if the failing entry were not there.
\<close>

theorem handler_failure_does_not_block:
  "(\<not> entry_unreadable e \<longrightarrow>
      raised (process_entry e st) = None
      \<and> process_entries (e # es) st =
          (case process_entries es (store_of (process_entry e st)) of
             (r, st', lg) \<Rightarrow> (r, st', log_of (process_entry e st) @ lg)))
   \<and> (messaging e = Some (ev # rest) \<and> sender ev = Some sid \<and> recipient ev = Some pid
        \<and> message ev = Some m \<and> text_of m = Some tx \<and> tx \<noteq> []
        \<and> toISOString (ev_timestamp ev) = Inl err
       \<longrightarrow> process_entries (e # es) st =
            (case process_entries es st of
               (r, st', lg) \<Rightarrow> (r, st', LogError ''Error handling message'' # lg)))
   \<and> (messaging e = Some (ev # rest) \<and> sender ev = Some sid \<and> recipient ev = Some pid
        \<and> message ev = None \<and> delivery ev = None \<and> read ev = Some rd
        \<and> toISOString (watermark rd) = Inl err
       \<longrightarrow> process_entries (e # es) st =
            (case process_entries es st of
               (r, st', lg) \<Rightarrow> (r, st', LogError ''Error updating read status'' # lg)))"
proof -
  have a: "\<not> entry_unreadable e \<longrightarrow>
      raised (process_entry e st) = None
      \<and> process_entries (e # es) st =
          (case process_entries es (store_of (process_entry e st)) of
             (r, st', lg) \<Rightarrow> (r, st', log_of (process_entry e st) @ lg))"
    using process_entry_raises_iff[of e st] process_entries_step[of e st es] by blast
  have b: "messaging e = Some (ev # rest) \<and> sender ev = Some sid \<and> recipient ev = Some pid
        \<and> message ev = Some m \<and> text_of m = Some tx \<and> tx \<noteq> []
        \<and> toISOString (ev_timestamp ev) = Inl err
       \<longrightarrow> process_entries (e # es) st =
            (case process_entries es st of
               (r, st', lg) \<Rightarrow> (r, st', LogError ''Error handling message'' # lg))"
    by (auto simp: process_entry_def handleMessage_def split: prod.splits)
  have c: "messaging e = Some (ev # rest) \<and> sender ev = Some sid \<and> recipient ev = Some pid
        \<and> message ev = None \<and> delivery ev = None \<and> read ev = Some rd
        \<and> toISOString (watermark rd) = Inl err
       \<longrightarrow> process_entries (e # es) st =
            (case process_entries es st of
               (r, st', lg) \<Rightarrow> (r, st', LogError ''Error updating read status'' # lg))"
    by (auto simp: process_entry_def handleRead_def split: prod.splits)
  from a b c show ?thesis by blast
qed

text \<open>
  Witness for C6: a message without a timestamp, followed in the same payload by the
  delivery receipt for \<open>m1\<close>. The first handler logs its error and the receipt is still
  applied.
\<close>

theorem handler_failure_witness:
  "\<not> entry_unreadable \<lparr>messaging = Some [scenario_message2\<lparr>ev_timestamp := None\<rparr>]\<rparr>
   \<and> toISOString (ev_timestamp (scenario_message2\<lparr>ev_timestamp := None\<rparr>)) = Inl RangeError
   \<and> process_entries
        [\<lparr>messaging = Some [scenario_message2\<lparr>ev_timestamp := None\<rparr>]\<rparr>,
         \<lparr>messaging = Some [scenario_delivery]\<rparr>] scenario_store_A
       = (None, scenario_store_A\<lparr>messages := [scenario_row\<lparr>isRead := True\<rparr>]\<rparr>,
          [LogError ''Error handling message'', LogInfo ''Messages marked as delivered''])"
proof -
  let ?ev = "scenario_message2\<lparr>ev_timestamp := None\<rparr>"
  let ?e = "\<lparr>messaging = Some [?ev]\<rparr>"
  have u: "\<not> entry_unreadable ?e"
    by (simp add: entry_unreadable_def scenario_message2_def)
  have t: "toISOString (ev_timestamp ?ev) = Inl RangeError"
    by (simp add: toISOString_def)
  have h: "messaging ?e = Some (?ev # []) \<and> sender ?ev = Some ''c1'' \<and> recipient ?ev = Some ''p1''
        \<and> message ?ev = Some \<lparr>mid = ''m2'', text_of = Some ''Anyone there?''\<rparr>
        \<and> text_of \<lparr>mid = ''m2'', text_of = Some ''Anyone there?''\<rparr> = Some ''Anyone there?''
        \<and> ''Anyone there?'' \<noteq> []
        \<and> toISOString (ev_timestamp ?ev) = Inl RangeError"
    by (simp add: scenario_message2_def toISOString_def)
  have r: "process_entries [\<lparr>messaging = Some [scenario_delivery]\<rparr>] scenario_store_A
       = (None, scenario_store_A\<lparr>messages := [scenario_row\<lparr>isRead := True\<rparr>]\<rparr>,
          [LogInfo ''Messages marked as delivered''])"
    by (simp add: route_defs scenario_defs)
  have step: "process_entries [?e, \<lparr>messaging = Some [scenario_delivery]\<rparr>] scenario_store_A =
      (case process_entries [\<lparr>messaging = Some [scenario_delivery]\<rparr>] scenario_store_A of
         (r, st', lg) \<Rightarrow> (r, st', LogError ''Error handling message'' # lg))"
    using handler_failure_does_not_block[of ?e scenario_store_A
         "[\<lparr>messaging = Some [scenario_delivery]\<rparr>]" ?ev "[]" "''c1''" "''p1''"
         "\<lparr>mid = ''m2'', text_of = Some ''Anyone there?''\<rparr>" "''Anyone there?''" RangeError]
       h by blast
  show ?thesis unfolding step r using u t by simp
qed

text \<open>
  Counterexample to C6 as stated: the entry without a messaging array raises in the
  loop, and the delivery receipt that follows it in the same payload is not processed;
  alone, the same receipt marks \<open>m1\<close> as read.
\<close>

theorem handler_failure_counterexample:
  "map isRead (messages (store_of (webhook_post
      \<lparr>object = Some ''page'',
       entry = Some [malformed_entry, \<lparr>messaging = Some [scenario_delivery]\<rparr>]\<rparr>
      scenario_store_A))) = [False]
   \<and> map isRead (messages (store_of (webhook_post
      \<lparr>object = Some ''page'', entry = Some [\<lparr>messaging = Some [scenario_delivery]\<rparr>]\<rparr>
      scenario_store_A))) = [True]"
  by (simp add: route_defs scenario_defs)

text \<open>
  Claim C10. A payload whose \<open>object\<close> is not \<open>page\<close> changes no state and logs nothing;
  within each entry only the first messaging sub-event counts: the outcome of a payload
  is the outcome of the payload with every later sub-event removed; and the response is
  always the acknowledgement with status 200.
\<close>

theorem webhook_post_page_first_event_only:
  "(object body \<noteq> Some ''page'' \<longrightarrow>
      webhook_post body st = (\<lparr>http_status = 200, http_body = ''EVENT_RECEIVED''\<rparr>, st, []))
   \<and> webhook_post (body\<lparr>entry := map_option (map first_only) (entry body)\<rparr>) st
       = webhook_post body st
   \<and> fst (webhook_post body st) = \<lparr>http_status = 200, http_body = ''EVENT_RECEIVED''\<rparr>"
  by (auto simp: webhook_post_def Let_def process_entries_first_only
      split: option.splits prod.splits)

text \<open>
  Witness for C10: the payload of scenario A under another \<open>object\<close> changes nothing;
  and a delivery receipt placed behind the message in the same entry is not applied.
\<close>

theorem webhook_post_witness:
  "object (scenario_body\<lparr>object := Some ''user''\<rparr>) \<noteq> Some ''page''
   \<and> webhook_post (scenario_body\<lparr>object := Some ''user''\<rparr>) scenario_store
       = (\<lparr>http_status = 200, http_body = ''EVENT_RECEIVED''\<rparr>, scenario_store, [])
   \<and> webhook_post
        \<lparr>object = Some ''page'',
         entry = Some [\<lparr>messaging = Some [scenario_message, scenario_delivery]\<rparr>]\<rparr> scenario_store_A
       = webhook_post scenario_body scenario_store_A"
proof -
  have o: "object (scenario_body\<lparr>object := Some ''user''\<rparr>) \<noteq> Some ''page''" by simp
  from webhook_post_page_first_event_only[of "scenario_body\<lparr>object := Some ''user''\<rparr>"
         scenario_store]
       webhook_post_page_first_event_only[of
         "\<lparr>object = Some ''page'',
           entry = Some [\<lparr>messaging = Some [scenario_message, scenario_delivery]\<rparr>]\<rparr>"
         scenario_store_A] o
  show ?thesis by (simp add: first_only_def scenario_body_def)
qed

section \<open>The send-message route and the chat window\<close>

lemmas client_defs =
  handleSend_def on_response_def on_failure_def optimisticMessage_def temp_id_def
  addMessage_def or_else_def trim_def is_space_def validateMessageContent_def match_urls_def
  List.map_filter_def url_here_def digits.simps digit_char_def chatMessages_def syncThread_def
  policy_warning_def window_error_def idle_chat_def chat_conversation_def send_env_ok_def
  send_env_failed_def canonical_copy_def scenario_row_def Let_def

lemma update_outbound_frame [simp]:
  "pages (update_conversation_outbound cid txt ts st) = pages st"
  "messages (update_conversation_outbound cid txt ts st) = messages st"
  "map conv_id (conversations (update_conversation_outbound cid txt ts st))
     = map conv_id (conversations st)"
  by (simp_all add: update_conversation_outbound_def o_def if_distrib cong: if_cong)

lemma send_message_fresh:
  assumes "req_conversationId req = Some cid" "req_text req = Some tx" "cid \<noteq> []" "tx \<noteq> []"
    and "cid \<in> set (map conv_id (conversations st))"
    and "generated_id now rnd \<notin> set (map msg_id (messages st))"
  shows "send_message req now rnd ts st =
    ((200, Json_message (outbound_row (generated_id now rnd) req cid tx ts)),
     update_conversation_outbound cid tx ts
       (st\<lparr>messages := messages st @ [outbound_row (generated_id now rnd) req cid tx ts]\<rparr>),
     [LogInfo ''Message sent and pushed to clients''])"
proof -
  let ?r = "outbound_row (generated_id now rnd) req cid tx ts"
  have "insert_message ?r st = (None, st\<lparr>messages := messages st @ [?r]\<rparr>)"
    using assms(5,6) by (intro insert_message_fresh) (simp_all add: outbound_row_def)
  with assms(1-4) show ?thesis by (simp add: send_message_def)
qed

lemma send_message_taken:
  assumes "req_conversationId req = Some cid" "req_text req = Some tx" "cid \<noteq> []" "tx \<noteq> []"
    and "generated_id now rnd \<in> set (map msg_id (messages st))"
  shows "send_message req now rnd ts st =
    ((500, Json_db_error UniqueViolation), st, [LogError ''Error sending message''])"
  using assms by (simp add: send_message_def insert_message_def outbound_row_def)




lemma handleSend_request:
  "snd (handleSend add env conv expired st) =
   map_option (\<lambda>r. r\<lparr>tag := if expired then Some ''HUMAN_AGENT'' else None\<rparr>)
     (snd (handleSend add env conv False st))"
  by (simp add: handleSend_def Let_def split: option.splits)

text \<open>
  Claim C7. The window policy depends on the last time of the conversation and the
  current time only: it restricts exactly when more than 24 hours (86400000 ms) have
  passed, so a last time more than 24 hours back is restricted and one hour back is
  allowed. Restriction does not block the send: \<open>handleSend\<close> hands a request to the
  platform under the restricted policy exactly when it does under the allowed one, with
  the same recipient, text and token, and the request carries the tag \<open>HUMAN_AGENT\<close>
  exactly when the policy restricts.
\<close>

theorem window_policy_tags_but_sends:
  "(isWindowExpired (Some t) now \<longleftrightarrow> now - t > 86400000)
   \<and> isWindowExpired (Some (now - 86400001)) now
   \<and> \<not> isWindowExpired (Some (now - 3600000)) now
   \<and> map_option (\<lambda>r. (to_customer r, body_text r, access_token r))
        (snd (handleSend add env conv True st))
     = map_option (\<lambda>r. (to_customer r, body_text r, access_token r))
        (snd (handleSend add env conv False st))
   \<and> (\<forall>r. snd (handleSend add env conv (isWindowExpired (cc_lastTime conv) now) st) = Some r
          \<longrightarrow> tag r = (if isWindowExpired (cc_lastTime conv) now
                         then Some ''HUMAN_AGENT'' else None))"
proof -
  have a: "isWindowExpired (Some t) now \<longleftrightarrow> now - t > 86400000"
    by (simp add: isWindowExpired_def)
  have b: "isWindowExpired (Some (now - 86400001)) now"
    by (simp add: isWindowExpired_def)
  have c: "\<not> isWindowExpired (Some (now - 3600000)) now"
    by (simp add: isWindowExpired_def)
  have d: "map_option (\<lambda>r. (to_customer r, body_text r, access_token r))
        (snd (handleSend add env conv True st))
     = map_option (\<lambda>r. (to_customer r, body_text r, access_token r))
        (snd (handleSend add env conv False st))"
    by (subst handleSend_request) (simp add: option.map_comp o_def)
  have e: "\<forall>r. snd (handleSend add env conv (isWindowExpired (cc_lastTime conv) now) st) = Some r
          \<longrightarrow> tag r = (if isWindowExpired (cc_lastTime conv) now
                         then Some ''HUMAN_AGENT'' else None)"
    by (subst handleSend_request) auto
  from a b c d e show ?thesis by blast
qed

text \<open>
  Witness for C7: the conversation of scenario A, read 25 hours after its last message.
  The policy restricts, and the send of "hello" is still handed to the platform, tagged.
\<close>

theorem window_policy_witness:
  "isWindowExpired (cc_lastTime chat_conversation) 1700090000000
   \<and> \<not> isWindowExpired (cc_lastTime chat_conversation) 1700003600000
   \<and> snd (handleSend addMessage send_env_ok chat_conversation
        (isWindowExpired (cc_lastTime chat_conversation) 1700090000000) idle_chat)
     = Some \<lparr>to_customer = ''c1'', body_text = ''hello'', access_token = ''tok'',
             tag = Some ''HUMAN_AGENT''\<rparr>
   \<and> snd (handleSend addMessage send_env_ok chat_conversation
        (isWindowExpired (cc_lastTime chat_conversation) 1700003600000) idle_chat)
     = Some \<lparr>to_customer = ''c1'', body_text = ''hello'', access_token = ''tok'', tag = None\<rparr>"
proof -
  have x: "isWindowExpired (cc_lastTime chat_conversation) 1700090000000"
    by (simp add: isWindowExpired_def chat_conversation_def)
  have y: "\<not> isWindowExpired (cc_lastTime chat_conversation) 1700003600000"
    by (simp add: isWindowExpired_def chat_conversation_def)
  have s: "snd (handleSend addMessage send_env_ok chat_conversation True idle_chat)
     = Some \<lparr>to_customer = ''c1'', body_text = ''hello'', access_token = ''tok'',
             tag = Some ''HUMAN_AGENT''\<rparr>"
    by (simp add: client_defs)
  have s': "snd (handleSend addMessage send_env_ok chat_conversation False idle_chat)
     = Some \<lparr>to_customer = ''c1'', body_text = ''hello'', access_token = ''tok'', tag = None\<rparr>"
    by (simp add: client_defs)
  from window_policy_tags_but_sends[of 1700000000000 1700090000000 addMessage send_env_ok
         chat_conversation idle_chat]
       window_policy_tags_but_sends[of 1700000000000 1700003600000 addMessage send_env_ok
         chat_conversation idle_chat] x y s s'
  show ?thesis by simp
qed

text \<open>
  Claim C2: what \<open>handleSend\<close> does to the local view. Whenever a request is made, the
  view afterwards is the view with the optimistic entry added and, if the platform
  answered with an identifier, the copy under that identifier added as well. Nothing is
  ever taken out: after a failed request the optimistic entry is still in the view (the
  \<open>catch\<close> block only takes its identifier out of \<open>sentMessageIds\<close>), and after a
  successful one the optimistic entry stands beside the copy under the platform's
  identifier unless \<open>addMessage\<close> itself retires it.
\<close>

theorem handleSend_only_adds:
  "snd (handleSend add env conv expired st) = Some r \<longrightarrow>
     view (fst (handleSend add env conv expired st)) =
       (case outcome env of
          Failed code msg \<Rightarrow> add (optimisticMessage env conv (body_text r)) (view st)
        | Sent None \<Rightarrow> add (optimisticMessage env conv (body_text r)) (view st)
        | Sent (Some k) \<Rightarrow>
            if k = [] then add (optimisticMessage env conv (body_text r)) (view st)
            else add ((optimisticMessage env conv (body_text r))\<lparr>msg_id := k\<rparr>)
                   (add (optimisticMessage env conv (body_text r)) (view st)))"
  by (auto simp: handleSend_def Let_def on_response_def on_failure_def
      split: option.splits send_outcome.splits if_splits)

text \<open>
  Witness for C2: an agent sends "hello" in conversation \<open>p1_c1\<close>. When the request
  fails, the optimistic entry is still among the visible messages. When the platform
  answers with the identifier \<open>mid.1\<close>, the visible messages hold the optimistic entry
  and the copy \<open>mid.1\<close>, also after the thread has been synchronised with the platform's
  copy.
\<close>

theorem handleSend_only_adds_witness:
  "snd (handleSend addMessage send_env_failed chat_conversation False idle_chat)
     = Some \<lparr>to_customer = ''c1'', body_text = ''hello'', access_token = ''tok'', tag = None\<rparr>
   \<and> map msg_id (chatMessages
        (view (fst (handleSend addMessage send_env_failed chat_conversation False idle_chat)))
        ''p1_c1'')
     = [''m1'', ''temp-1700000003000-k3j9x0q2a'']
   \<and> sentMessageIds (fst (handleSend addMessage send_env_failed chat_conversation False idle_chat))
     = []
   \<and> map msg_id (chatMessages
        (view (fst (handleSend addMessage send_env_ok chat_conversation False idle_chat)))
        ''p1_c1'')
     = [''m1'', ''temp-1700000003000-k3j9x0q2a'', ''mid.1'']
   \<and> map msg_id (chatMessages
        (syncThread addMessage [scenario_row, canonical_copy]
           (view (fst (handleSend addMessage send_env_ok chat_conversation False idle_chat))))
        ''p1_c1'')
     = [''m1'', ''temp-1700000003000-k3j9x0q2a'', ''mid.1'']"
proof -
  let ?r = "\<lparr>to_customer = ''c1'', body_text = ''hello'', access_token = ''tok'', tag = None\<rparr>"
  have f: "snd (handleSend addMessage send_env_failed chat_conversation False idle_chat) = Some ?r"
    by (simp add: client_defs)
  have o: "snd (handleSend addMessage send_env_ok chat_conversation False idle_chat) = Some ?r"
    by (simp add: client_defs)
  have vf: "view (fst (handleSend addMessage send_env_failed chat_conversation False idle_chat))
      = addMessage (optimisticMessage send_env_failed chat_conversation ''hello'') (view idle_chat)"
    using handleSend_only_adds[of addMessage send_env_failed chat_conversation False idle_chat ?r]
      f by (simp add: send_env_failed_def)
  have vo: "view (fst (handleSend addMessage send_env_ok chat_conversation False idle_chat))
      = addMessage ((optimisticMessage send_env_ok chat_conversation ''hello'')\<lparr>msg_id := ''mid.1''\<rparr>)
          (addMessage (optimisticMessage send_env_ok chat_conversation ''hello'') (view idle_chat))"
    using handleSend_only_adds[of addMessage send_env_ok chat_conversation False idle_chat ?r]
      o by (simp add: send_env_ok_def)
  have s: "sentMessageIds (fst (handleSend addMessage send_env_failed chat_conversation False
             idle_chat)) = []"
    by (simp add: client_defs)
  show ?thesis
    unfolding vf vo using f s by (simp add: client_defs)
qed

end
